theory Spec2Isabelle
  imports Main
begin

section \<open>Terms of the Prolog engine\<close>

text \<open>
  The constraints plugin (\<open>packages/plugin-constraints/sources/tauModule.ts\<close>) registers
  a module of predicates with the tau-prolog engine. Terms are the engine's three classes:
  variables, numbers and compound terms; an atom is a compound term without arguments.
  A variable carries its name and a renaming level: level \<open>0\<close> is a variable as written,
  a positive level is a copy made when a rule is renamed apart.
\<close>

datatype pterm = Var string nat | Num int | Term string "pterm list"

definition isAtom :: "pterm \<Rightarrow> bool" where
  "isAtom t = (case t of Term f args \<Rightarrow> args = [] | _ \<Rightarrow> False)"

definition isVariable :: "pterm \<Rightarrow> bool" where
  "isVariable t = (case t of Var x k \<Rightarrow> True | _ \<Rightarrow> False)"

fun isInstantiatedList :: "pterm \<Rightarrow> bool" where
  "isInstantiatedList (Term f [h, t]) = (if f = ''.'' then isInstantiatedList t else False)"
| "isInstantiatedList (Term f []) = (f = ''[]'')"
| "isInstantiatedList t = False"

text \<open>The \<open>id\<close> property of a term, and its indicator (name and arity).\<close>

fun term_id :: "pterm \<Rightarrow> string" where
  "term_id (Term f args) = f"
| "term_id (Var x k) = x"
| "term_id (Num i) = []"

fun indicator :: "pterm \<Rightarrow> string \<times> nat" where
  "indicator (Term f args) = (f, length args)"
| "indicator t = ([], 0)"

text \<open>The elements of a Prolog list, as \<open>toJavaScript\<close> walks it.\<close>

fun toJavaScript :: "pterm \<Rightarrow> pterm list" where
  "toJavaScript (Term f [h, t]) = (if f = ''.'' then h # toJavaScript t else [])"
| "toJavaScript t = []"

section \<open>The helpers of util.ts\<close>

datatype DependencyType = Dependencies | DevDependencies | PeerDependencies

fun DependencyType_value :: "DependencyType \<Rightarrow> string" where
  "DependencyType_value Dependencies = ''dependencies''"
| "DependencyType_value DevDependencies = ''devDependencies''"
| "DependencyType_value PeerDependencies = ''peerDependencies''"

type_synonym rule = "pterm \<times> pterm option"

definition variable :: "string \<Rightarrow> pterm" where
  "variable x = Var x 0"

definition pl_term :: "string \<Rightarrow> pterm list \<Rightarrow> pterm" where
  "pl_term f args = Term f args"

text \<open>\<open>and(first, second, ...rest)\<close> nests the conjunction to the left.\<close>

fun pl_and :: "pterm \<Rightarrow> pterm \<Rightarrow> pterm list \<Rightarrow> pterm" where
  "pl_and first second [] = pl_term '','' [first, second]"
| "pl_and first second (r # rest) = pl_and (pl_term '','' [first, second]) r rest"

definition pl_rule :: "pterm \<Rightarrow> pterm option \<Rightarrow> rule" where
  "pl_rule head body = (head, body)"

text \<open>
  \<open>termEquals(lhs, rhs)\<close>: every caller in the module passes a string as \<open>rhs\<close>, which
  becomes an atom.
\<close>

definition termEquals :: "pterm \<Rightarrow> string \<Rightarrow> pterm" where
  "termEquals lhs rhs = pl_term ''='' [lhs, pl_term rhs []]"

text \<open>
  A state of the search: the goals still to prove, the bindings of the query's variables,
  and the level the next renamed rule gets.
\<close>

type_synonym vname = "string \<times> nat"
type_synonym subst = "(vname \<times> pterm) list"

record state =
  goal :: "pterm list"
  substitution :: subst
  rename :: nat

text \<open>\<open>point.goal.replace(expr)\<close> puts \<open>expr\<close> in the place of the selected goal.\<close>

definition replace :: "pterm option \<Rightarrow> pterm list \<Rightarrow> pterm list" where
  "replace expr gs = (case expr of None \<Rightarrow> tl gs | Some e \<Rightarrow> e # tl gs)"

text \<open>
  \<open>prependGoals(thread, point, goals)\<close> hands the engine one new state per goal; the model
  returns the states that \<open>thread.prepend\<close> receives.
\<close>

definition prependGoals :: "state \<Rightarrow> pterm list \<Rightarrow> state list" where
  "prependGoals point goals =
     map (\<lambda>g. point\<lparr>goal := replace (Some g) (goal point)\<rparr>) goals"

text \<open>\<open>thread.success(point)\<close> prepends the state with the selected goal removed.\<close>

definition success :: "state \<Rightarrow> state list" where
  "success point = [point\<lparr>goal := replace None (goal point)\<rparr>]"

section \<open>The project snapshot and the host functions\<close>

text \<open>
  Modelled from the spec: the project snapshot. The classes Project, Workspace and Manifest
  of the core package are not part of the sources at hand; the spec (sections 3 and 6) gives
  a workspace its relative path, its identifier, the raw manifest and three dependency
  partitions mapping an identifier to a descriptor (identifier and version range), and the
  project an ordered enumeration of workspaces, lookup by path and one-to-many lookup by
  identifier. The raw manifest and its field values have the abstract type \<open>'v\<close>.
\<close>

record ident =
  identHash :: string
  scope :: "string option"
  name :: string

record descriptor =
  descriptorIdent :: ident
  range :: string

record 'v manifest =
  raw :: 'v
  dependencies :: "(string \<times> descriptor) list"
  devDependencies :: "(string \<times> descriptor) list"
  peerDependencies :: "(string \<times> descriptor) list"

record 'v workspace =
  relativeCwd :: string
  locator :: ident
  manifest :: "'v manifest"

record 'v project =
  workspaces :: "'v workspace list"

text \<open>
  Modelled from the spec: \<open>manifest[key]\<close> for a key read from an atom. The three
  partitions are the maps the spec names; any other key has no dependency map.
\<close>

definition manifest_get :: "'v manifest \<Rightarrow> string \<Rightarrow> (string \<times> descriptor) list option" where
  "manifest_get m key =
     (if key = ''dependencies'' then Some (dependencies m)
      else if key = ''devDependencies'' then Some (devDependencies m)
      else if key = ''peerDependencies'' then Some (peerDependencies m)
      else None)"

text \<open>Modelled from the spec: lookup by path, over the workspaces in registration order.\<close>

definition tryWorkspaceByCwd :: "'v project \<Rightarrow> string \<Rightarrow> 'v workspace option" where
  "tryWorkspaceByCwd project cwd = find (\<lambda>w. relativeCwd w = cwd) (workspaces project)"

text \<open>
  Modelled from the spec: one-to-many lookup by identifier. The map has an entry only for
  an identifier that some workspace carries.
\<close>

definition workspacesByIdent :: "'v project \<Rightarrow> string \<Rightarrow> 'v workspace list option" where
  "workspacesByIdent project h =
     (let ws = filter (\<lambda>w. identHash (locator w) = h) (workspaces project)
      in if ws = [] then None else Some ws)"

text \<open>
  What can end a query other than the exhaustion of its alternatives: the errors thrown
  through \<open>thread.throwError\<close> and by the engine, and the exceptions of the host code.
\<close>

datatype error =
    InstantiationError "string \<times> nat"
  | ExistenceError "string \<times> nat"
  | TypeError
  | HostBindingError
  | WorkspaceNotFound
  | InvalidIdent
  | SandboxEvaluationError

text \<open>Modelled from the spec: the lookup by path that throws when nothing is found.\<close>

definition getWorkspaceByCwd :: "'v project \<Rightarrow> string \<Rightarrow> error + 'v workspace" where
  "getWorkspaceByCwd project cwd =
     (case tryWorkspaceByCwd project cwd of None \<Rightarrow> Inl WorkspaceNotFound | Some w \<Rightarrow> Inr w)"

text \<open>
  The library functions the predicates call are parameters of the model:
  \<open>getPath\<close> is lodash's \<open>get\<close> (\<open>None\<close> for \<open>undefined\<close>), \<open>toStr\<close> is JavaScript's
  \<open>String\<close>, \<open>runInNewContext\<close> is the \<open>vm\<close> evaluation of an expression against the
  field value and the extra arguments (the truthiness of its result, \<open>None\<close> when it
  throws), \<open>parseIdent\<close> and \<open>stringifyIdent\<close> are those of \<open>structUtils\<close>
  (\<open>parseIdent\<close> gives \<open>None\<close> where it throws on a string that is no identifier).
\<close>

record 'v host =
  getPath :: "'v \<Rightarrow> string \<Rightarrow> 'v option"
  toStr :: "'v \<Rightarrow> string"
  runInNewContext :: "string \<Rightarrow> 'v \<Rightarrow> pterm list \<Rightarrow> bool option"
  parseIdent :: "string \<Rightarrow> ident option"
  stringifyIdent :: "ident \<Rightarrow> string"

section \<open>The session registry\<close>

text \<open>
  \<open>projects\<close> is the module's table from sessions to projects; a thread knows its session.
  \<open>linkProjectToSession\<close> stores the project and consults the directive that loads the
  module into the session.
\<close>

record thread =
  session :: nat

record 'v world =
  projects :: "nat \<Rightarrow> 'v project option"
  consulted :: "nat \<Rightarrow> string list"

definition getProject :: "(nat \<Rightarrow> 'v project option) \<Rightarrow> thread \<Rightarrow> error + 'v project" where
  "getProject registry thr =
     (case registry (session thr) of None \<Rightarrow> Inl HostBindingError | Some project \<Rightarrow> Inr project)"

definition linkProjectToSession :: "'v world \<Rightarrow> nat \<Rightarrow> 'v project \<Rightarrow> 'v world" where
  "linkProjectToSession w s project =
     w\<lparr>projects := (projects w)(s := Some project),
       consulted := (consulted w)(s := consulted w s @ ['':- use_module(library(constraints)).''])\<rparr>"

section \<open>The native predicates of tauModule.ts\<close>

text \<open>
  A native predicate receives the thread, the current state and the selected goal. It
  returns the states it prepends (none when it just returns), or the error it throws. The
  engine calls a predicate by name and arity, so the last equation of each function is
  never used.
\<close>

fun workspace_1 ::
  "'v host \<Rightarrow> (nat \<Rightarrow> 'v project option) \<Rightarrow> thread \<Rightarrow> state \<Rightarrow> pterm \<Rightarrow> error + state list" where
  "workspace_1 h registry thr point (Term f [workspaceCwd]) =
     (case getProject registry thr of Inl e \<Rightarrow> Inl e | Inr project \<Rightarrow>
        if isAtom workspaceCwd then
          (if tryWorkspaceByCwd project (term_id workspaceCwd) \<noteq> None
           then Inr (success point) else Inr [])
        else if \<not> isVariable workspaceCwd then
          Inl (InstantiationError (indicator (Term f [workspaceCwd])))
        else
          Inr (prependGoals point
                (map (\<lambda>workspace. termEquals workspaceCwd (relativeCwd workspace))
                   (workspaces project))))"
| "workspace_1 h registry thr point t = Inr []"

fun workspace_ident_2 ::
  "'v host \<Rightarrow> (nat \<Rightarrow> 'v project option) \<Rightarrow> thread \<Rightarrow> state \<Rightarrow> pterm \<Rightarrow> error + state list" where
  "workspace_ident_2 h registry thr point (Term f [workspaceCwd, workspaceIdent]) =
     (case getProject registry thr of Inl e \<Rightarrow> Inl e | Inr project \<Rightarrow>
        if isAtom workspaceCwd then
          (let workspace = tryWorkspaceByCwd project (term_id workspaceCwd) in
           if \<not> isAtom workspaceIdent \<and> \<not> isVariable workspaceIdent then
             Inl (InstantiationError (indicator (Term f [workspaceCwd, workspaceIdent])))
           else
             (case workspace of
                None \<Rightarrow> Inr []
              | Some w \<Rightarrow>
                  Inr (prependGoals point
                        [termEquals workspaceIdent (stringifyIdent h (locator w))])))
        else if isVariable workspaceCwd then
          (if isAtom workspaceIdent then
             (case parseIdent h (term_id workspaceIdent) of
                None \<Rightarrow> Inl InvalidIdent
              | Some i \<Rightarrow>
                  (case workspacesByIdent project (identHash i) of
                     None \<Rightarrow> Inr []
                   | Some ws \<Rightarrow>
                       Inr (prependGoals point
                             (map (\<lambda>workspace. termEquals workspaceCwd (relativeCwd workspace))
                                ws))))
           else if isVariable workspaceIdent then
             Inr (prependGoals point
                   (map (\<lambda>workspace.
                           pl_and (termEquals workspaceCwd (relativeCwd workspace))
                             (termEquals workspaceIdent (stringifyIdent h (locator workspace)))
                             [])
                      (workspaces project)))
           else
             Inl (InstantiationError (indicator (Term f [workspaceCwd, workspaceIdent]))))
        else
          Inl (InstantiationError (indicator (Term f [workspaceCwd, workspaceIdent]))))"
| "workspace_ident_2 h registry thr point t = Inr []"

fun workspace_field_3 ::
  "'v host \<Rightarrow> (nat \<Rightarrow> 'v project option) \<Rightarrow> thread \<Rightarrow> state \<Rightarrow> pterm \<Rightarrow> error + state list" where
  "workspace_field_3 h registry thr point (Term f [workspaceCwd, fieldName, fieldValue]) =
     (if \<not> isAtom workspaceCwd \<or> \<not> isAtom fieldName then
        Inl (InstantiationError (indicator (Term f [workspaceCwd, fieldName, fieldValue])))
      else
        (case getProject registry thr of Inl e \<Rightarrow> Inl e | Inr project \<Rightarrow>
           (case tryWorkspaceByCwd project (term_id workspaceCwd) of
              None \<Rightarrow> Inr []
            | Some workspace \<Rightarrow>
                (case getPath h (raw (manifest workspace)) (term_id fieldName) of
                   None \<Rightarrow> Inr []
                 | Some v \<Rightarrow> Inr (prependGoals point [termEquals fieldValue (toStr h v)])))))"
| "workspace_field_3 h registry thr point t = Inr []"

fun workspace_field_test_4 ::
  "'v host \<Rightarrow> (nat \<Rightarrow> 'v project option) \<Rightarrow> thread \<Rightarrow> state \<Rightarrow> pterm \<Rightarrow> error + state list" where
  "workspace_field_test_4 h registry thr point
       (Term f [workspaceCwd, fieldName, checkCode, checkArgv]) =
     (if \<not> isAtom workspaceCwd \<or> \<not> isAtom fieldName \<or> \<not> isAtom checkCode
           \<or> \<not> isInstantiatedList checkArgv then
        Inl (InstantiationError
              (indicator (Term f [workspaceCwd, fieldName, checkCode, checkArgv])))
      else
        (case getProject registry thr of Inl e \<Rightarrow> Inl e | Inr project \<Rightarrow>
           (case tryWorkspaceByCwd project (term_id workspaceCwd) of
              None \<Rightarrow> Inr []
            | Some workspace \<Rightarrow>
                (case getPath h (raw (manifest workspace)) (term_id fieldName) of
                   None \<Rightarrow> Inr []
                 | Some v \<Rightarrow>
                     (case runInNewContext h (term_id checkCode) v (toJavaScript checkArgv) of
                        None \<Rightarrow> Inl SandboxEvaluationError
                      | Some result \<Rightarrow> if result then Inr (success point) else Inr [])))))"
| "workspace_field_test_4 h registry thr point t = Inr []"

fun internal_workspace_has_dependency_4 ::
  "'v host \<Rightarrow> (nat \<Rightarrow> 'v project option) \<Rightarrow> thread \<Rightarrow> state \<Rightarrow> pterm \<Rightarrow> error + state list" where
  "internal_workspace_has_dependency_4 h registry thr point
       (Term f [workspaceCwd, dependencyIdent, dependencyRange, dependencyType]) =
     (if \<not> isAtom workspaceCwd \<or> \<not> isAtom dependencyType then
        Inl (InstantiationError
              (indicator (Term f [workspaceCwd, dependencyIdent, dependencyRange, dependencyType])))
      else
        (case getProject registry thr of Inl e \<Rightarrow> Inl e | Inr project \<Rightarrow>
           (case getWorkspaceByCwd project (term_id workspaceCwd) of
              Inl e \<Rightarrow> Inl e
            | Inr workspaceInfo \<Rightarrow>
                (case manifest_get (manifest workspaceInfo) (term_id dependencyType) of
                   None \<Rightarrow> Inr []
                 | Some registeredDependencies \<Rightarrow>
                     if isAtom dependencyIdent then
                       (case parseIdent h (term_id dependencyIdent) of
                          None \<Rightarrow> Inl InvalidIdent
                        | Some i \<Rightarrow>
                            (case map_of registeredDependencies (identHash i) of
                               Some dependencyDescriptor \<Rightarrow>
                                 Inr (prependGoals point
                                       [termEquals dependencyRange (range dependencyDescriptor)])
                             | None \<Rightarrow> Inr []))
                     else if \<not> isVariable dependencyIdent then
                       Inl (InstantiationError
                             (indicator (Term f [workspaceCwd, dependencyIdent,
                                                 dependencyRange, dependencyType])))
                     else
                       Inr (prependGoals point
                             (map (\<lambda>dependencyDescriptor.
                                     pl_and
                                       (termEquals dependencyIdent
                                          (stringifyIdent h (descriptorIdent dependencyDescriptor)))
                                       (termEquals dependencyRange (range dependencyDescriptor))
                                       [])
                                (map snd registeredDependencies)))))))"
| "internal_workspace_has_dependency_4 h registry thr point t = Inr []"

section \<open>The module\<close>

text \<open>
  The table of the module: under a name and an arity, either the rules of a declarative
  predicate or a native predicate.
\<close>

datatype predicate =
    Declarative "rule list"
  | Native "thread \<Rightarrow> state \<Rightarrow> pterm \<Rightarrow> error + state list"

definition tauModule ::
  "'v host \<Rightarrow> (nat \<Rightarrow> 'v project option) \<Rightarrow> string \<times> nat \<Rightarrow> predicate option" where
  "tauModule h registry ind =
    (if ind = (''dependency_type'', 1) then
       Some (Declarative
         [pl_rule (pl_term ''dependency_type'' [pl_term (DependencyType_value Dependencies) []]) None,
          pl_rule (pl_term ''dependency_type'' [pl_term (DependencyType_value DevDependencies) []]) None,
          pl_rule (pl_term ''dependency_type'' [pl_term (DependencyType_value PeerDependencies) []]) None])
     else if ind = (''workspace'', 1) then Some (Native (workspace_1 h registry))
     else if ind = (''workspace_ident'', 2) then Some (Native (workspace_ident_2 h registry))
     else if ind = (''workspace_version'', 2) then
       Some (Declarative
         [pl_rule
            (pl_term ''workspace_version'' [variable ''WorkspaceCwd'', variable ''WorkspaceVersion''])
            (Some (pl_term ''workspace_field''
               [variable ''WorkspaceCwd'', pl_term ''version'' [], variable ''WorkspaceVersion'']))])
     else if ind = (''workspace_field'', 3) then Some (Native (workspace_field_3 h registry))
     else if ind = (''workspace_field_test'', 3) then
       Some (Declarative
         [pl_rule
            (pl_term ''workspace_field_test''
               [variable ''WorkspaceCwd'', variable ''FieldName'', variable ''CheckCode''])
            (Some (pl_term ''workspace_field_test''
               [variable ''WorkspaceCwd'', variable ''FieldName'', variable ''CheckCode'',
                pl_term ''[]'' []]))])
     else if ind = (''workspace_field_test'', 4) then
       Some (Native (workspace_field_test_4 h registry))
     else if ind = (''workspace_has_dependency'', 4) then
       Some (Declarative
         [pl_rule
            (pl_term ''workspace_has_dependency''
               [variable ''WorkspaceCwd'', variable ''DependencyIdent'',
                variable ''DependencyRange'', variable ''DependencyType''])
            (Some (pl_and
               (pl_term ''workspace'' [variable ''WorkspaceCwd''])
               (pl_term ''dependency_type'' [variable ''DependencyType''])
               [pl_term ''internal_workspace_has_dependency''
                  [variable ''WorkspaceCwd'', variable ''DependencyIdent'',
                   variable ''DependencyRange'', variable ''DependencyType'']]))])
     else if ind = (''internal_workspace_has_dependency'', 4) then
       Some (Native (internal_workspace_has_dependency_4 h registry))
     else None)"

section \<open>The resolution engine\<close>

text \<open>
  Modelled from the spec: the engine (sections 4.1 to 4.3) is the tau-prolog library, which
  is not part of the sources at hand. The model keeps what the module relies on:
  unification without occurs check, the goal stack, rules renamed apart and tried in
  declaration order, one alternative per state a native predicate prepends, depth-first
  search, and an error that ends the whole query.
\<close>

fun subst_term :: "subst \<Rightarrow> pterm \<Rightarrow> pterm" where
  "subst_term s (Var x k) = (case map_of s (x, k) of None \<Rightarrow> Var x k | Some t \<Rightarrow> t)"
| "subst_term s (Num i) = Num i"
| "subst_term s (Term f args) = Term f (map (subst_term s) args)"

definition bind :: "vname \<Rightarrow> pterm \<Rightarrow> subst \<Rightarrow> subst" where
  "bind v t s = map (\<lambda>(w, u). (w, subst_term [(v, t)] u)) s @ [(v, t)]"

definition subst_pairs :: "subst \<Rightarrow> (pterm \<times> pterm) list \<Rightarrow> (pterm \<times> pterm) list" where
  "subst_pairs s ps = map (\<lambda>(l, r). (subst_term s l, subst_term s r)) ps"

text \<open>
  Unification of a list of pairs, with the bindings made so far. There is no occurs check,
  so the loop need not end: the first argument bounds the number of pairs it handles, and
  the outer \<open>None\<close> says that the bound was reached. The inner \<open>None\<close> is a mismatch.
\<close>

fun unify :: "nat \<Rightarrow> (pterm \<times> pterm) list \<Rightarrow> subst \<Rightarrow> subst option option" where
  "unify n [] s = Some (Some s)"
| "unify 0 (p # ps) s = None"
| "unify (Suc n) ((a, b) # ps) s =
     (case a of
        Var x k \<Rightarrow>
          if b = Var x k then unify n ps s
          else unify n (subst_pairs [((x, k), b)] ps) (bind (x, k) b s)
      | Num i \<Rightarrow>
          (case b of
             Var y l \<Rightarrow> unify n (subst_pairs [((y, l), a)] ps) (bind (y, l) a s)
           | Num j \<Rightarrow> if i = j then unify n ps s else Some None
           | Term g bs \<Rightarrow> Some None)
      | Term f as \<Rightarrow>
          (case b of
             Var y l \<Rightarrow> unify n (subst_pairs [((y, l), a)] ps) (bind (y, l) a s)
           | Num j \<Rightarrow> Some None
           | Term g bs \<Rightarrow>
               if f = g \<and> length as = length bs then unify n (zip as bs @ ps) s
               else Some None))"

definition subst_state :: "subst \<Rightarrow> state \<Rightarrow> state" where
  "subst_state mgu st =
     st\<lparr>goal := map (subst_term mgu) (goal st),
        substitution := map (\<lambda>(v, t). (v, subst_term mgu t)) (substitution st)\<rparr>"

text \<open>Renaming a rule apart: its variables move to a level no term of the state has.\<close>

fun rename_term :: "nat \<Rightarrow> pterm \<Rightarrow> pterm" where
  "rename_term k (Var x l) = Var x k"
| "rename_term k (Num i) = Num i"
| "rename_term k (Term f args) = Term f (map (rename_term k) args)"

definition rename_rule :: "nat \<Rightarrow> rule \<Rightarrow> rule" where
  "rename_rule k r = (rename_term k (fst r), map_option (rename_term k) (snd r))"

datatype 'a res = Ok 'a | Err error | OutOfFuel

text \<open>
  The rules of a declarative predicate against the selected goal: one state per rule whose
  head unifies, in declaration order, the body in the place of the goal.
\<close>

fun resolve :: "nat \<Rightarrow> state \<Rightarrow> pterm \<Rightarrow> rule list \<Rightarrow> state list res" where
  "resolve n point atom [] = Ok []"
| "resolve n point atom (r # rs) =
     (let r' = rename_rule (rename point) r in
      case unify n [(fst r', atom)] [] of
        None \<Rightarrow> OutOfFuel
      | Some None \<Rightarrow> resolve n point atom rs
      | Some (Some mgu) \<Rightarrow>
          (case resolve n point atom rs of
             Ok sts \<Rightarrow>
               Ok (subst_state mgu
                     (point\<lparr>goal := replace (snd r') (goal point),
                            rename := Suc (rename point)\<rparr>) # sts)
           | Err e \<Rightarrow> Err e
           | OutOfFuel \<Rightarrow> OutOfFuel))"

definition call ::
  "nat \<Rightarrow> 'v host \<Rightarrow> (nat \<Rightarrow> 'v project option) \<Rightarrow> thread \<Rightarrow> state \<Rightarrow> pterm \<Rightarrow> state list res" where
  "call n h registry thr point atom =
     (case tauModule h registry (indicator atom) of
        None \<Rightarrow> Err (ExistenceError (indicator atom))
      | Some (Native callback) \<Rightarrow>
          (case callback thr point atom of Inl e \<Rightarrow> Err e | Inr sts \<Rightarrow> Ok sts)
      | Some (Declarative rules) \<Rightarrow> resolve n point atom rules)"

text \<open>
  One step on a state with a goal left: a conjunction puts its two goals on the stack,
  \<open>=/2\<close> unifies its arguments, any other goal is a call into the module.
\<close>

definition step ::
  "nat \<Rightarrow> 'v host \<Rightarrow> (nat \<Rightarrow> 'v project option) \<Rightarrow> thread \<Rightarrow> state \<Rightarrow> state list res" where
  "step n h registry thr point =
     (case goal point of
        [] \<Rightarrow> Ok []
      | atom # rest \<Rightarrow>
          (case atom of
             Var x k \<Rightarrow> Err (InstantiationError (''call'', 1))
           | Num i \<Rightarrow> Err TypeError
           | Term f args \<Rightarrow>
               (case args of
                  [a, b] \<Rightarrow>
                    if f = '','' then Ok [point\<lparr>goal := a # b # rest\<rparr>]
                    else if f = ''='' then
                      (case unify n [(a, b)] [] of
                         None \<Rightarrow> OutOfFuel
                       | Some None \<Rightarrow> Ok []
                       | Some (Some mgu) \<Rightarrow> Ok [subst_state mgu (point\<lparr>goal := rest\<rparr>)])
                    else call n h registry thr point atom
                | _ \<Rightarrow> call n h registry thr point atom)))"

text \<open>
  The answers of a search, in the order they are found, and how the search ended.
\<close>

datatype status = Exhausted | Raised error | Limit

fun combine :: "(subst list \<times> status) list \<Rightarrow> subst list \<times> status" where
  "combine [] = ([], Exhausted)"
| "combine ((answers, st) # rs) =
     (if st = Exhausted then (answers @ fst (combine rs), snd (combine rs)) else (answers, st))"

text \<open>
  Depth-first search from a state. The first argument bounds the depth of the search (and
  each unification); at the bound the search ends with \<open>Limit\<close>.
\<close>

fun solve ::
  "nat \<Rightarrow> 'v host \<Rightarrow> (nat \<Rightarrow> 'v project option) \<Rightarrow> thread \<Rightarrow> state \<Rightarrow> subst list \<times> status" where
  "solve 0 h registry thr point = ([], Limit)"
| "solve (Suc n) h registry thr point =
     (if goal point = [] then ([substitution point], Exhausted)
      else
        (case step n h registry thr point of
           Ok sts \<Rightarrow> combine (map (solve n h registry thr) sts)
         | Err e \<Rightarrow> ([], Raised e)
         | OutOfFuel \<Rightarrow> ([], Limit)))"

text \<open>
  The state a query starts from: the goal, each of its variables bound to itself (in the
  order of first occurrence), and a renaming level above every level in the goal.
\<close>

fun variables :: "pterm \<Rightarrow> vname list" where
  "variables (Var x k) = [(x, k)]"
| "variables (Num i) = []"
| "variables (Term f args) = concat (map variables args)"

fun max_level :: "pterm \<Rightarrow> nat" where
  "max_level (Var x k) = k"
| "max_level (Num i) = 0"
| "max_level (Term f args) = foldr (\<lambda>t m. max (max_level t) m) args 0"

definition links :: "vname list \<Rightarrow> subst" where
  "links vs = foldl (\<lambda>acc v. if v \<in> fst ` set acc then acc else acc @ [(v, Var (fst v) (snd v))]) [] vs"

definition query :: "pterm \<Rightarrow> state" where
  "query g = \<lparr>goal = [g], substitution = links (variables g), rename = Suc (max_level g)\<rparr>"

section \<open>Operations on the world\<close>

text \<open>
  What a program does with the registry: it links a project to a session, or runs a query
  in a session. A query reads the registry and leaves the world as it is.
\<close>

datatype 'v event = LinkProject nat "'v project" | RunQuery nat pterm

fun exec :: "'v world \<Rightarrow> 'v event \<Rightarrow> 'v world" where
  "exec w (LinkProject s project) = linkProjectToSession w s project"
| "exec w (RunQuery s g) = w"

fun relinks :: "nat \<Rightarrow> 'v event \<Rightarrow> bool" where
  "relinks s (LinkProject s' project) = (s' = s)"
| "relinks s (RunQuery s' g) = False"

section \<open>A sample host and project\<close>

text \<open>
  A small instance on which the theorems below are evaluated: manifests are JSON values,
  a field is looked up by its top-level key, and identifiers are written as the core
  package writes them.
\<close>

datatype json = JString string | JNumber int | JBool bool | JNull | JObject "(string \<times> json) list"

fun sample_getPath :: "json \<Rightarrow> string \<Rightarrow> json option" where
  "sample_getPath (JObject fs) k = map_of fs k"
| "sample_getPath v k = None"

fun sample_toStr :: "json \<Rightarrow> string" where
  "sample_toStr (JString s) = s"
| "sample_toStr (JBool b) = (if b then ''true'' else ''false'')"
| "sample_toStr JNull = ''null''"
| "sample_toStr (JNumber i) = (if i = 0 then ''0'' else if i = 1 then ''1'' else ''NaN'')"
| "sample_toStr (JObject fs) = ''[object Object]''"

text \<open>
  The sample evaluator knows three expressions: a true one, a false one, and one that
  compares the field value with the first extra argument; anything else does not parse.
\<close>

definition sample_runInNewContext :: "string \<Rightarrow> json \<Rightarrow> pterm list \<Rightarrow> bool option" where
  "sample_runInNewContext code v argv =
     (if code = ''true'' then Some True
      else if code = ''false'' then Some False
      else if code = ''$$ === $0'' then
        Some (case argv of [] \<Rightarrow> False | a # as \<Rightarrow> JString (term_id a) = v)
      else None)"

definition mk_ident :: "string \<Rightarrow> ident" where
  "mk_ident n = \<lparr>identHash = n, scope = None, name = n\<rparr>"

definition sample_host :: "json host" where
  "sample_host =
     \<lparr>getPath = sample_getPath,
      toStr = sample_toStr,
      runInNewContext = sample_runInNewContext,
      parseIdent = (\<lambda>s. if s = [] then None else Some (mk_ident s)),
      stringifyIdent = (\<lambda>i. case scope i of None \<Rightarrow> name i | Some sc \<Rightarrow> ''@'' @ sc @ ''/'' @ name i)\<rparr>"

definition dep :: "string \<Rightarrow> string \<Rightarrow> string \<times> descriptor" where
  "dep n r = (n, \<lparr>descriptorIdent = mk_ident n, range = r\<rparr>)"

definition sample_project :: "json project" where
  "sample_project =
     \<lparr>workspaces =
        [\<lparr>relativeCwd = ''.'', locator = mk_ident ''root'',
          manifest = \<lparr>raw = JObject [(''name'', JString ''root''), (''private'', JBool True)],
                      dependencies = [], devDependencies = [], peerDependencies = []\<rparr>\<rparr>,
         \<lparr>relativeCwd = ''packages/a'', locator = mk_ident ''lib'',
          manifest = \<lparr>raw = JObject [(''name'', JString ''lib''), (''version'', JString ''1.0.0'')],
                      dependencies = [dep ''a'' ''^1.0.0'', dep ''b'' ''^2.0.0''],
                      devDependencies = [dep ''c'' ''^3.0.0''], peerDependencies = []\<rparr>\<rparr>,
         \<lparr>relativeCwd = ''packages/b'', locator = mk_ident ''lib'',
          manifest = \<lparr>raw = JObject [(''name'', JString ''lib''), (''version'', JString ''2.0.0'')],
                      dependencies = [], devDependencies = [], peerDependencies = []\<rparr>\<rparr>]\<rparr>"

definition sample_world :: "json world" where
  "sample_world = linkProjectToSession \<lparr>projects = (\<lambda>s. None), consulted = (\<lambda>s. [])\<rparr> 0 sample_project"

section \<open>Auxiliary definitions\<close>

text \<open>
  The answers of the goal \<open>t = a\<close> for an atom \<open>a\<close>, from the bindings \<open>sub\<close>: a variable
  is bound, an atom must be \<open>a\<close> itself, anything else does not unify.
\<close>

definition equals_answers :: "pterm \<Rightarrow> string \<Rightarrow> subst \<Rightarrow> subst list" where
  "equals_answers t a sub =
     (case t of
        Var x k \<Rightarrow> [map (\<lambda>(v, u). (v, subst_term [((x, k), Term a [])] u)) sub]
      | Num i \<Rightarrow> []
      | Term g args \<Rightarrow> if g = a \<and> args = [] then [sub] else [])"

(*AUXDEFS*)

section \<open>Lemmas about the engine\<close>

lemma tauModule_workspace:
  "tauModule h reg (''workspace'', Suc 0) = Some (Native (workspace_1 h reg))"
  by (simp add: tauModule_def)

lemma tauModule_workspace_ident:
  "tauModule h reg (''workspace_ident'', Suc (Suc 0)) = Some (Native (workspace_ident_2 h reg))"
  by (simp add: tauModule_def)

lemma tauModule_workspace_field:
  "tauModule h reg (''workspace_field'', Suc (Suc (Suc 0))) = Some (Native (workspace_field_3 h reg))"
  by (simp add: tauModule_def)

lemma tauModule_workspace_field_test:
  "tauModule h reg (''workspace_field_test'', Suc (Suc (Suc (Suc 0))))
     = Some (Native (workspace_field_test_4 h reg))"
  by (simp add: tauModule_def)

lemma combine_singletons:
  "combine (map (\<lambda>x. ([f x], Exhausted)) xs) = (map f xs, Exhausted)"
  by (induction xs) simp_all

lemma combine_single: "combine [r] = r"
  by (cases r) simp

lemma links_single: "links [v] = [(v, Var (fst v) (snd v))]"
  by (simp add: links_def)

lemma links_pair: "v \<noteq> w \<Longrightarrow> links [v, w] = [(v, Var (fst v) (snd v)), (w, Var (fst w) (snd w))]"
  by (auto simp add: links_def)

lemma subst_term_Nil: "subst_term [] t = t"
  by (induction t) (simp_all add: map_idI)

lemma subst_range_Nil: "map (\<lambda>(v, t). (v, subst_term [] t)) sub = sub"
  by (induction sub) (auto simp add: subst_term_Nil)

lemma solve_equals:
  "solve (Suc (Suc n)) h reg thr \<lparr>goal = [Term ''='' [t, Term a []]], substitution = sub, rename = r\<rparr>
     = (equals_answers t a sub, Exhausted)"
  by (cases t)
     (auto simp add: step_def subst_state_def bind_def subst_pairs_def equals_answers_def
        subst_range_Nil)

lemma solve_workspace_field:
  "solve (Suc (Suc (Suc n))) h reg thr
      \<lparr>goal = [Term ''workspace_field'' [p, f, v]], substitution = sub, rename = r\<rparr>
   = (if \<not> isAtom p \<or> \<not> isAtom f then ([], Raised (InstantiationError (''workspace_field'', 3)))
      else
        (case getProject reg thr of
           Inl e \<Rightarrow> ([], Raised e)
         | Inr project \<Rightarrow>
             (case tryWorkspaceByCwd project (term_id p) of
                None \<Rightarrow> ([], Exhausted)
              | Some w \<Rightarrow>
                  (case getPath h (raw (manifest w)) (term_id f) of
                     None \<Rightarrow> ([], Exhausted)
                   | Some val \<Rightarrow> (equals_answers v (toStr h val) sub, Exhausted)))))"
proof -
  have "solve (Suc (Suc (Suc n))) h reg thr
      \<lparr>goal = [Term ''workspace_field'' [p, f, v]], substitution = sub, rename = r\<rparr>
    = (case step (Suc (Suc n)) h reg thr \<lparr>goal = [Term ''workspace_field'' [p, f, v]], substitution = sub, rename = r\<rparr> of
           Ok sts \<Rightarrow> combine (map (solve (Suc (Suc n)) h reg thr) sts)
         | Err e \<Rightarrow> ([], Raised e)
         | OutOfFuel \<Rightarrow> ([], Limit))"
    by (simp del: solve.simps add: solve.simps(2)[of "Suc (Suc n)"])
  also have "\<dots> = (if \<not> isAtom p \<or> \<not> isAtom f then ([], Raised (InstantiationError (''workspace_field'', 3)))
      else
        (case getProject reg thr of
           Inl e \<Rightarrow> ([], Raised e)
         | Inr project \<Rightarrow>
             (case tryWorkspaceByCwd project (term_id p) of
                None \<Rightarrow> ([], Exhausted)
              | Some w \<Rightarrow>
                  (case getPath h (raw (manifest w)) (term_id f) of
                     None \<Rightarrow> ([], Exhausted)
                   | Some val \<Rightarrow> (equals_answers v (toStr h val) sub, Exhausted)))))"
    by (simp del: solve.simps add: step_def call_def tauModule_workspace_field prependGoals_def
        termEquals_def pl_term_def replace_def solve_equals split: sum.splits option.splits)
  finally show ?thesis .
qed


lemma max_level_arg: "t \<in> set args \<Longrightarrow> max_level t \<le> max_level (Term f args)"
  by (induction args) auto

lemma subst_term_fresh:
  "\<forall>v \<in> fst ` set s. max_level t < snd v \<Longrightarrow> subst_term s t = t"
proof (induction t)
  case (Var x k)
  have "(x, k) \<notin> fst ` set s" using Var by fastforce
  then have "map_of s (x, k) = None" by (simp add: map_of_eq_None_iff)
  then show ?case by simp
next
  case (Num i)
  show ?case by simp
next
  case (Term f args)
  have "\<And>a. a \<in> set args \<Longrightarrow> subst_term s a = a"
  proof -
    fix a assume a: "a \<in> set args"
    have "\<forall>v \<in> fst ` set s. max_level a < snd v"
      using Term.prems max_level_arg[OF a, of f] by fastforce
    then show "subst_term s a = a" using Term.IH a by blast
  qed
  then show ?case by (simp add: map_idI)
qed

lemma subst_term_fresh1: "max_level t < k \<Longrightarrow> subst_term [((x, k), u)] t = t"
  by (rule subst_term_fresh) simp

lemma fresh_neq: "max_level t < k \<Longrightarrow> t \<noteq> Var x k"
  by auto

lemma variables_level: "v \<in> set (variables t) \<Longrightarrow> snd v \<le> max_level t"
proof (induction t)
  case (Term f args)
  then obtain a where a: "a \<in> set args" "v \<in> set (variables a)" by auto
  then have "snd v \<le> max_level a" using Term.IH by blast
  then show ?case using max_level_arg[OF a(1), of f] by linarith
qed auto

lemma links_foldl_range:
  "\<forall>e \<in> set acc. snd e = Var (fst (fst e)) (snd (fst e)) \<and> fst e \<in> A \<Longrightarrow> set vs \<subseteq> A \<Longrightarrow>
   \<forall>e \<in> set (foldl (\<lambda>acc v. if v \<in> fst ` set acc then acc else acc @ [(v, Var (fst v) (snd v))]) acc vs).
      snd e = Var (fst (fst e)) (snd (fst e)) \<and> fst e \<in> A"
proof (induction vs arbitrary: acc)
  case Nil
  then show ?case by simp
next
  case (Cons a vs)
  have vs: "set vs \<subseteq> A" and a: "a \<in> A" using Cons.prems(2) by simp_all
  show ?case
  proof (cases "a \<in> fst ` set acc")
    case True
    then show ?thesis using Cons.IH[OF Cons.prems(1) vs] by simp
  next
    case False
    have "\<forall>e \<in> set (acc @ [(a, Var (fst a) (snd a))]).
            snd e = Var (fst (fst e)) (snd (fst e)) \<and> fst e \<in> A"
      using Cons.prems(1) a by simp
    from Cons.IH[OF this vs] show ?thesis using False by simp
  qed
qed

lemma links_range: "(v, u) \<in> set (links vs) \<Longrightarrow> u = Var (fst v) (snd v) \<and> v \<in> set vs"
proof -
  assume m: "(v, u) \<in> set (links vs)"
  have "\<forall>e \<in> set (foldl (\<lambda>acc v. if v \<in> fst ` set acc then acc else acc @ [(v, Var (fst v) (snd v))]) [] vs).
      snd e = Var (fst (fst e)) (snd (fst e)) \<and> fst e \<in> set vs"
    by (rule links_foldl_range) simp_all
  then have "snd (v, u) = Var (fst (fst (v, u))) (snd (fst (v, u))) \<and> fst (v, u) \<in> set vs"
    using m unfolding links_def by blast
  then show ?thesis by simp
qed

lemma subst_links_fresh:
  assumes "\<forall>v \<in> fst ` set s. max_level g < snd v"
  shows "map (\<lambda>(v, t). (v, subst_term s t)) (links (variables g)) = links (variables g)"
proof -
  have "\<And>e. e \<in> set (links (variables g)) \<Longrightarrow> (\<lambda>(v, t). (v, subst_term s t)) e = e"
  proof -
    fix e assume e: "e \<in> set (links (variables g))"
    obtain v u where vu: "e = (v, u)" by (cases e)
    from e vu links_range[of v u "variables g"]
    have u: "u = Var (fst v) (snd v)" and v: "v \<in> set (variables g)" by auto
    have "max_level u \<le> max_level g" using u variables_level[OF v] by simp
    then have "\<forall>w \<in> fst ` set s. max_level u < snd w" using assms by fastforce
    then have "subst_term s u = u" by (rule subst_term_fresh)
    then show "(\<lambda>(v, t). (v, subst_term s t)) e = e" using vu by simp
  qed
  then show ?thesis by (simp add: map_idI)
qed

lemma tauModule_workspace_version:
  "tauModule h reg (''workspace_version'', Suc (Suc 0)) =
     Some (Declarative
         [(Term ''workspace_version'' [Var ''WorkspaceCwd'' 0, Var ''WorkspaceVersion'' 0],
           Some (Term ''workspace_field''
               [Var ''WorkspaceCwd'' 0, Term ''version'' [], Var ''WorkspaceVersion'' 0]))])"
  by (simp add: tauModule_def pl_rule_def pl_term_def variable_def)

lemma unify_workspace_version:
  assumes lp: "max_level p < K" and lv: "max_level v < K"
  shows "unify (Suc (Suc (Suc n)))
      [(Term ''workspace_version'' [Var ''WorkspaceCwd'' K, Var ''WorkspaceVersion'' K],
        Term ''workspace_version'' [p, v])] []
      = Some (Some [((''WorkspaceCwd'', K), p), ((''WorkspaceVersion'', K), v)])"
  using lp lv fresh_neq[OF lp, of "''WorkspaceCwd''"] fresh_neq[OF lv, of "''WorkspaceVersion''"]
  by (simp add: subst_pairs_def bind_def subst_term_fresh1)

lemma step_workspace_version_gen:
  assumes lp: "max_level p < K" and lv: "max_level v < K"
    and sl: "map (\<lambda>(w, t). (w, subst_term [((''WorkspaceCwd'', K), p), ((''WorkspaceVersion'', K), v)] t)) sub = sub"
  shows "step (Suc (Suc (Suc n))) h reg thr
           \<lparr>goal = [Term ''workspace_version'' [p, v]], substitution = sub, rename = K\<rparr>
     = Ok [\<lparr>goal = [Term ''workspace_field'' [p, Term ''version'' [], v]],
            substitution = sub, rename = Suc K\<rparr>]"
proof -
  let ?mgu = "[((''WorkspaceCwd'', K), p), ((''WorkspaceVersion'', K), v)]"
  have sp: "subst_term ?mgu p = p" using lp by (intro subst_term_fresh) simp
  have sv: "subst_term ?mgu v = v" using lv by (intro subst_term_fresh) simp
  show ?thesis
    using unify_workspace_version[OF lp lv, of n] sp sv sl
    by (simp add: step_def call_def tauModule_workspace_version rename_rule_def
        subst_state_def replace_def del: unify.simps)
qed

lemma step_workspace_version:
  "step (Suc (Suc (Suc n))) h reg thr (query (Term ''workspace_version'' [p, v]))
     = Ok [\<lparr>goal = [Term ''workspace_field'' [p, Term ''version'' [], v]],
            substitution = links (variables (Term ''workspace_field'' [p, Term ''version'' [], v])),
            rename = Suc (Suc (max_level (Term ''workspace_version'' [p, v])))\<rparr>]"
proof -
  let ?g = "Term ''workspace_version'' [p, v]"
  let ?K = "Suc (max_level ?g)"
  let ?mgu = "[((''WorkspaceCwd'', ?K), p), ((''WorkspaceVersion'', ?K), v)]"
  have lp: "max_level p < ?K" and lv: "max_level v < ?K" by (auto simp add: less_Suc_eq_le)
  have "\<forall>w \<in> fst ` set ?mgu. max_level ?g < snd w" by (simp del: max_level.simps)
  then have sl: "map (\<lambda>(w, t). (w, subst_term ?mgu t)) (links (variables ?g)) = links (variables ?g)"
    by (rule subst_links_fresh)
  have vars: "variables (Term ''workspace_field'' [p, Term ''version'' [], v]) = variables ?g"
    by simp
  show ?thesis
    unfolding query_def vars
    by (rule step_workspace_version_gen[OF lp lv sl])
qed

lemma step_workspace_var:
  assumes "getProject registry thr = Inr p"
  shows "step n h registry thr \<lparr>goal = Term ''workspace'' [Var x k] # rest, substitution = sub, rename = r\<rparr>
      = Ok (map (\<lambda>w. \<lparr>goal = Term ''='' [Var x k, Term (relativeCwd w) []] # rest,
                       substitution = sub, rename = r\<rparr>) (workspaces p))"
  using assms
  by (simp add: step_def call_def tauModule_workspace
        isAtom_def isVariable_def prependGoals_def termEquals_def pl_term_def replace_def)

lemma solve_conj_equals:
  assumes "(x, k) \<noteq> (y, l)"
  shows "solve (Suc (Suc (Suc (Suc n)))) h reg thr
           \<lparr>goal = [Term '','' [Term ''='' [Var x k, Term a []], Term ''='' [Var y l, Term b []]]],
            substitution = sub, rename = r\<rparr>
     = ([map (\<lambda>(v, u). (v, subst_term [((y, l), Term b [])] (subst_term [((x, k), Term a [])] u))) sub],
        Exhausted)"
proof -
  have 1: "step (Suc (Suc (Suc n))) h reg thr
           \<lparr>goal = [Term '','' [Term ''='' [Var x k, Term a []], Term ''='' [Var y l, Term b []]]],
            substitution = sub, rename = r\<rparr>
      = Ok [\<lparr>goal = [Term ''='' [Var x k, Term a []], Term ''='' [Var y l, Term b []]],
            substitution = sub, rename = r\<rparr>]"
    by (simp add: step_def)
  have 2: "step (Suc (Suc n)) h reg thr
           \<lparr>goal = [Term ''='' [Var x k, Term a []], Term ''='' [Var y l, Term b []]],
            substitution = sub, rename = r\<rparr>
      = Ok [\<lparr>goal = [Term ''='' [Var y l, Term b []]],
            substitution = map (\<lambda>(v, u). (v, subst_term [((x, k), Term a [])] u)) sub, rename = r\<rparr>]"
    using assms by (auto simp add: step_def subst_state_def bind_def subst_pairs_def)
  show ?thesis
    by (auto simp del: solve.simps simp add: solve.simps(2)[of "Suc (Suc (Suc n))"]
        solve.simps(2)[of "Suc (Suc n)"] 1 2 combine_single solve_equals equals_answers_def)
qed

lemma step_workspace_ident_vars:
  assumes "getProject registry thr = Inr p"
  shows "step n h registry thr
           \<lparr>goal = [Term ''workspace_ident'' [Var x k, Var y l]], substitution = sub, rename = r\<rparr>
      = Ok (map (\<lambda>w. \<lparr>goal = [Term '','' [Term ''='' [Var x k, Term (relativeCwd w) []],
                                          Term ''='' [Var y l, Term (stringifyIdent h (locator w)) []]]],
                       substitution = sub, rename = r\<rparr>) (workspaces p))"
  using assms
  by (simp add: step_def call_def tauModule_workspace_ident
        isAtom_def isVariable_def prependGoals_def termEquals_def pl_term_def replace_def)

lemma step_workspace_ident_atom:
  assumes "getProject registry thr = Inr p" and "parseIdent h a = Some i"
  shows "step n h registry thr
           \<lparr>goal = [Term ''workspace_ident'' [Var x k, Term a []]], substitution = sub, rename = r\<rparr>
      = Ok (map (\<lambda>w. \<lparr>goal = [Term ''='' [Var x k, Term (relativeCwd w) []]],
                       substitution = sub, rename = r\<rparr>)
             (filter (\<lambda>w. identHash (locator w) = identHash i) (workspaces p)))"
  using assms
  by (simp add: step_def call_def tauModule_workspace_ident workspacesByIdent_def Let_def
        isAtom_def isVariable_def prependGoals_def termEquals_def pl_term_def replace_def)

lemma step_workspace_field_test:
  "step n h registry thr
      \<lparr>goal = Term ''workspace_field_test'' [a, b, c, d] # rest, substitution = sub, rename = r\<rparr>
   = (case workspace_field_test_4 h registry thr
             \<lparr>goal = Term ''workspace_field_test'' [a, b, c, d] # rest, substitution = sub, rename = r\<rparr>
             (Term ''workspace_field_test'' [a, b, c, d]) of
        Inl e \<Rightarrow> Err e | Inr sts \<Rightarrow> Ok sts)"
  by (simp add: step_def call_def tauModule_workspace_field_test del: workspace_field_test_4.simps)

lemma exec_other_session:
  "\<not> relinks s e \<Longrightarrow> projects (exec w e) s = projects w s"
  by (cases e) (auto simp add: linkProjectToSession_def)

lemma foldl_exec_keeps:
  "\<forall>e \<in> set es. \<not> relinks s e \<Longrightarrow> projects (foldl exec w es) s = projects w s"
  by (induction es arbitrary: w) (simp_all add: exec_other_session)

lemma solve_Suc_Ok:
  assumes "goal s \<noteq> []" and "step n h reg thr s = Ok sts"
  shows "solve (Suc n) h reg thr s = combine (map (solve n h reg thr) sts)"
  using assms by simp

lemma solve_Suc_single:
  assumes "goal s \<noteq> []" and "step n h reg thr s = Ok [s']"
  shows "solve (Suc n) h reg thr s = solve n h reg thr s'"
  using assms by (simp add: combine_single del: combine.simps)

lemma solve_Suc_Err:
  assumes "goal s \<noteq> []" and "step n h reg thr s = Err e"
  shows "solve (Suc n) h reg thr s = ([], Raised e)"
  using assms by simp

lemma combine_failures: "combine (map (\<lambda>x. ([], Exhausted)) xs) = ([], Exhausted)"
  by (induction xs) simp_all

lemma step_conj:
  "step n h reg thr \<lparr>goal = Term '','' [a, b] # rest, substitution = sub, rename = r\<rparr>
     = Ok [\<lparr>goal = a # b # rest, substitution = sub, rename = r\<rparr>]"
  by (simp add: step_def)

lemma tauModule_workspace_has_dependency:
  "tauModule h reg (''workspace_has_dependency'', Suc (Suc (Suc (Suc 0)))) =
     Some (Declarative
       [(Term ''workspace_has_dependency''
           [Var ''WorkspaceCwd'' 0, Var ''DependencyIdent'' 0,
            Var ''DependencyRange'' 0, Var ''DependencyType'' 0],
         Some (Term '',''
           [Term '','' [Term ''workspace'' [Var ''WorkspaceCwd'' 0],
                        Term ''dependency_type'' [Var ''DependencyType'' 0]],
            Term ''internal_workspace_has_dependency''
              [Var ''WorkspaceCwd'' 0, Var ''DependencyIdent'' 0,
               Var ''DependencyRange'' 0, Var ''DependencyType'' 0]]))])"
  by (simp add: tauModule_def pl_rule_def pl_term_def variable_def)

lemma tauModule_dependency_type:
  "tauModule h reg (''dependency_type'', Suc 0) =
     Some (Declarative
       [(Term ''dependency_type'' [Term ''dependencies'' []], None),
        (Term ''dependency_type'' [Term ''devDependencies'' []], None),
        (Term ''dependency_type'' [Term ''peerDependencies'' []], None)])"
  by (simp add: tauModule_def pl_rule_def pl_term_def)

lemma tauModule_internal:
  "tauModule h reg (''internal_workspace_has_dependency'', Suc (Suc (Suc (Suc 0)))) =
     Some (Native (internal_workspace_has_dependency_4 h reg))"
  by (simp add: tauModule_def)

lemma unify_workspace_has_dependency:
  assumes lw: "max_level w < K" and li: "max_level i < K"
    and lr: "max_level r < K" and lt: "max_level t < K"
  shows "unify (Suc (Suc (Suc (Suc (Suc n)))))
      [(Term ''workspace_has_dependency''
          [Var ''WorkspaceCwd'' K, Var ''DependencyIdent'' K,
           Var ''DependencyRange'' K, Var ''DependencyType'' K],
        Term ''workspace_has_dependency'' [w, i, r, t])] []
      = Some (Some [((''WorkspaceCwd'', K), w), ((''DependencyIdent'', K), i),
                    ((''DependencyRange'', K), r), ((''DependencyType'', K), t)])"
  using fresh_neq[OF lw, of "''WorkspaceCwd''"] fresh_neq[OF li, of "''DependencyIdent''"]
    fresh_neq[OF lr, of "''DependencyRange''"] fresh_neq[OF lt, of "''DependencyType''"]
  by (simp add: subst_pairs_def bind_def subst_term_fresh1[OF lw] subst_term_fresh1[OF li]
      subst_term_fresh1[OF lr] subst_term_fresh1[OF lt])

lemma step_workspace_has_dependency_gen:
  assumes lw: "max_level w < K" and li: "max_level i < K"
    and lr: "max_level r < K" and lt: "max_level t < K"
    and sl: "map (\<lambda>(x, u). (x, subst_term
                [((''WorkspaceCwd'', K), w), ((''DependencyIdent'', K), i),
                 ((''DependencyRange'', K), r), ((''DependencyType'', K), t)] u)) sub = sub"
  shows "step (Suc (Suc (Suc (Suc (Suc n))))) h reg thr
           \<lparr>goal = [Term ''workspace_has_dependency'' [w, i, r, t]], substitution = sub, rename = K\<rparr>
     = Ok [\<lparr>goal = [Term '',''
                      [Term '','' [Term ''workspace'' [w], Term ''dependency_type'' [t]],
                       Term ''internal_workspace_has_dependency'' [w, i, r, t]]],
            substitution = sub, rename = Suc K\<rparr>]"
proof -
  let ?mgu = "[((''WorkspaceCwd'', K), w), ((''DependencyIdent'', K), i),
                 ((''DependencyRange'', K), r), ((''DependencyType'', K), t)]"
  show ?thesis
    using unify_workspace_has_dependency[OF lw li lr lt, of n] sl
    by (simp add: step_def call_def tauModule_workspace_has_dependency rename_rule_def
        subst_state_def replace_def del: unify.simps)
qed

lemma step_workspace_has_dependency:
  "step (Suc (Suc (Suc (Suc (Suc n))))) h reg thr (query (Term ''workspace_has_dependency'' [w, i, r, t]))
     = Ok [\<lparr>goal = [Term '',''
                      [Term '','' [Term ''workspace'' [w], Term ''dependency_type'' [t]],
                       Term ''internal_workspace_has_dependency'' [w, i, r, t]]],
            substitution = links (variables (Term ''workspace_has_dependency'' [w, i, r, t])),
            rename = Suc (Suc (max_level (Term ''workspace_has_dependency'' [w, i, r, t])))\<rparr>]"
proof -
  let ?g = "Term ''workspace_has_dependency'' [w, i, r, t]"
  let ?K = "Suc (max_level ?g)"
  let ?mgu = "[((''WorkspaceCwd'', ?K), w), ((''DependencyIdent'', ?K), i),
                 ((''DependencyRange'', ?K), r), ((''DependencyType'', ?K), t)]"
  have lw: "max_level w < ?K" and li: "max_level i < ?K"
    and lr: "max_level r < ?K" and lt: "max_level t < ?K"
    by (auto simp add: less_Suc_eq_le)
  have "\<forall>x \<in> fst ` set ?mgu. max_level ?g < snd x" by (simp del: max_level.simps)
  then have sl: "map (\<lambda>(x, u). (x, subst_term ?mgu u)) (links (variables ?g)) = links (variables ?g)"
    by (rule subst_links_fresh)
  show ?thesis
    unfolding query_def
    by (rule step_workspace_has_dependency_gen[OF lw li lr lt sl])
qed

lemma solve_workspace_has_dependency:
  "solve (Suc (Suc (Suc (Suc (Suc (Suc n)))))) h reg thr
      (query (Term ''workspace_has_dependency'' [w, i, r, t]))
   = solve (Suc (Suc (Suc n))) h reg thr
       \<lparr>goal = [Term ''workspace'' [w], Term ''dependency_type'' [t],
                Term ''internal_workspace_has_dependency'' [w, i, r, t]],
        substitution = links (variables (Term ''workspace_has_dependency'' [w, i, r, t])),
        rename = Suc (Suc (max_level (Term ''workspace_has_dependency'' [w, i, r, t])))\<rparr>"
proof -
  let ?sub = "links (variables (Term ''workspace_has_dependency'' [w, i, r, t]))"
  let ?K = "Suc (Suc (max_level (Term ''workspace_has_dependency'' [w, i, r, t])))"
  have g: "goal (query (Term ''workspace_has_dependency'' [w, i, r, t])) \<noteq> []"
    by (simp add: query_def)
  have "solve (Suc (Suc (Suc (Suc (Suc (Suc n)))))) h reg thr
      (query (Term ''workspace_has_dependency'' [w, i, r, t]))
    = solve (Suc (Suc (Suc (Suc (Suc n))))) h reg thr
       \<lparr>goal = [Term '',''
                      [Term '','' [Term ''workspace'' [w], Term ''dependency_type'' [t]],
                       Term ''internal_workspace_has_dependency'' [w, i, r, t]]],
        substitution = ?sub, rename = ?K\<rparr>"
    by (rule solve_Suc_single[OF g step_workspace_has_dependency])
  also have "\<dots> = solve (Suc (Suc (Suc (Suc n)))) h reg thr
       \<lparr>goal = [Term '','' [Term ''workspace'' [w], Term ''dependency_type'' [t]],
                       Term ''internal_workspace_has_dependency'' [w, i, r, t]],
        substitution = ?sub, rename = ?K\<rparr>"
    by (rule solve_Suc_single[OF _ step_conj]) simp
  also have "\<dots> = solve (Suc (Suc (Suc n))) h reg thr
       \<lparr>goal = [Term ''workspace'' [w], Term ''dependency_type'' [t],
                       Term ''internal_workspace_has_dependency'' [w, i, r, t]],
        substitution = ?sub, rename = ?K\<rparr>"
    by (rule solve_Suc_single[OF _ step_conj]) simp
  finally show ?thesis .
qed

lemma map_subst_term_Nil: "map (subst_term []) ts = ts"
  by (simp add: subst_term_Nil map_idI)

lemma subst_state_Nil: "subst_state [] st = st"
  by (simp add: subst_state_def map_subst_term_Nil subst_range_Nil)

lemma step_workspace_atom:
  assumes "getProject registry thr = Inr p" and "tryWorkspaceByCwd p c = Some ws"
  shows "step n h registry thr
           \<lparr>goal = Term ''workspace'' [Term c []] # rest, substitution = sub, rename = K\<rparr>
     = Ok [\<lparr>goal = rest, substitution = sub, rename = K\<rparr>]"
  using assms
  by (simp add: step_def call_def tauModule_workspace isAtom_def success_def replace_def)

lemma step_dependency_type_atom:
  assumes "ty = ''dependencies'' \<or> ty = ''devDependencies'' \<or> ty = ''peerDependencies''"
  shows "step (Suc (Suc n)) h registry thr
           \<lparr>goal = Term ''dependency_type'' [Term ty []] # rest, substitution = sub, rename = K\<rparr>
     = Ok [\<lparr>goal = rest, substitution = sub, rename = Suc K\<rparr>]"
  using assms
  by (auto simp add: step_def call_def tauModule_dependency_type rename_rule_def replace_def
      subst_state_Nil)

lemma step_internal_var:
  assumes "getProject registry thr = Inr p" and "tryWorkspaceByCwd p c = Some ws"
    and "manifest_get (manifest ws) ty = Some deps"
  shows "step n h registry thr
           \<lparr>goal = [Term ''internal_workspace_has_dependency'' [Term c [], Var i ki, Var r kr, Term ty []]],
            substitution = sub, rename = K\<rparr>
     = Ok (map (\<lambda>d. \<lparr>goal = [Term '',''
                                [Term ''='' [Var i ki, Term (stringifyIdent h (descriptorIdent d)) []],
                                 Term ''='' [Var r kr, Term (range d) []]]],
                      substitution = sub, rename = K\<rparr>) (map snd deps))"
  using assms
  by (simp add: step_def call_def tauModule_internal isAtom_def isVariable_def getWorkspaceByCwd_def
      prependGoals_def termEquals_def pl_term_def replace_def comp_def)

lemma manifest_get_Some:
  "manifest_get m ty = Some deps \<Longrightarrow>
     ty = ''dependencies'' \<or> ty = ''devDependencies'' \<or> ty = ''peerDependencies''"
  by (auto simp add: manifest_get_def split: if_splits)

lemma subst_term_rigid:
  "\<not> isAtom t \<Longrightarrow> \<not> isVariable t \<Longrightarrow>
     \<not> isAtom (subst_term s t) \<and> \<not> isVariable (subst_term s t)"
  by (cases t) (auto simp add: isAtom_def isVariable_def)

lemma step_workspace_rigid:
  assumes "getProject registry thr = Inr p" and "\<not> isAtom t" and "\<not> isVariable t"
  shows "step n h registry thr
           \<lparr>goal = Term ''workspace'' [t] # rest, substitution = sub, rename = K\<rparr>
     = Err (InstantiationError (''workspace'', 1))"
  using assms by (simp add: step_def call_def tauModule_workspace)

lemma step_workspace_missing:
  assumes "getProject registry thr = Inr p" and "tryWorkspaceByCwd p c = None"
  shows "step n h registry thr
           \<lparr>goal = Term ''workspace'' [Term c []] # rest, substitution = sub, rename = K\<rparr>
     = Ok []"
  using assms by (simp add: step_def call_def tauModule_workspace isAtom_def)

lemma step_dependency_type_rigid:
  assumes "\<not> isAtom t" and "\<not> isVariable t"
  shows "step (Suc (Suc n)) h registry thr
           \<lparr>goal = Term ''dependency_type'' [t] # rest, substitution = sub, rename = K\<rparr>
     = Ok []"
  using assms
  by (cases t)
     (auto simp add: step_def call_def tauModule_dependency_type rename_rule_def isAtom_def
        isVariable_def)

lemma step_equals_var:
  "step (Suc n) h registry thr
      \<lparr>goal = Term ''='' [Var x k, Term a []] # rest, substitution = sub, rename = K\<rparr>
     = Ok [subst_state [((x, k), Term a [])] \<lparr>goal = rest, substitution = sub, rename = K\<rparr>]"
  by (simp add: step_def bind_def subst_pairs_def)

lemma solve_dependency_type_rigid:
  assumes "\<not> isAtom t" and "\<not> isVariable t"
  shows "solve (Suc (Suc (Suc n))) h registry thr
           \<lparr>goal = Term ''dependency_type'' [t] # rest, substitution = sub, rename = K\<rparr>
     = ([], Exhausted)"
proof -
  have "solve (Suc (Suc (Suc n))) h registry thr
           \<lparr>goal = Term ''dependency_type'' [t] # rest, substitution = sub, rename = K\<rparr>
      = combine (map (solve (Suc (Suc n)) h registry thr) [])"
    by (rule solve_Suc_Ok[OF _ step_dependency_type_rigid[OF assms]]) simp
  then show ?thesis by simp
qed

lemma solve_workspace_then_rigid_type:
  assumes p: "getProject registry thr = Inr p" and c: "isAtom c \<or> isVariable c"
    and t: "\<not> isAtom t" "\<not> isVariable t"
  shows "solve (Suc (Suc (Suc (Suc (Suc n))))) h registry thr
           \<lparr>goal = [Term ''workspace'' [c], Term ''dependency_type'' [t],
                    Term ''internal_workspace_has_dependency'' [c, i, r, t]],
            substitution = sub, rename = K\<rparr>
     = ([], Exhausted)"
proof (cases c)
  case (Var x k)
  let ?rest = "[Term ''dependency_type'' [t], Term ''internal_workspace_has_dependency'' [Var x k, i, r, t]]"
  have e: "solve (Suc (Suc (Suc (Suc n)))) h registry thr
         \<lparr>goal = Term ''='' [Var x k, Term a []] # ?rest, substitution = sub, rename = K\<rparr>
       = ([], Exhausted)" for a
  proof -
    have "solve (Suc (Suc (Suc (Suc n)))) h registry thr
         \<lparr>goal = Term ''='' [Var x k, Term a []] # ?rest, substitution = sub, rename = K\<rparr>
      = solve (Suc (Suc (Suc n))) h registry thr
         (subst_state [((x, k), Term a [])] \<lparr>goal = ?rest, substitution = sub, rename = K\<rparr>)"
      by (rule solve_Suc_single[OF _ step_equals_var]) simp
    also have "\<dots> = ([], Exhausted)"
      unfolding subst_state_def
      using subst_term_rigid[OF t, of "[((x, k), Term a [])]"]
      by (simp add: solve_dependency_type_rigid del: solve.simps)
    finally show ?thesis .
  qed
  have "solve (Suc (Suc (Suc (Suc (Suc n))))) h registry thr
           \<lparr>goal = Term ''workspace'' [Var x k] # ?rest, substitution = sub, rename = K\<rparr>
      = combine (map (solve (Suc (Suc (Suc (Suc n)))) h registry thr)
          (map (\<lambda>w. \<lparr>goal = Term ''='' [Var x k, Term (relativeCwd w) []] # ?rest,
                       substitution = sub, rename = K\<rparr>) (workspaces p)))"
    by (rule solve_Suc_Ok[OF _ step_workspace_var[OF p]]) simp
  also have "\<dots> = ([], Exhausted)"
    by (simp add: comp_def e combine_failures del: solve.simps)
  finally show ?thesis using Var by simp
next
  case (Num j)
  then show ?thesis using c by (simp add: isAtom_def isVariable_def)
next
  case (Term f args)
  then have a: "args = []" using c by (simp add: isAtom_def isVariable_def)
  let ?rest = "[Term ''dependency_type'' [t], Term ''internal_workspace_has_dependency'' [Term f [], i, r, t]]"
  show ?thesis
  proof (cases "tryWorkspaceByCwd p f")
    case None
    have "solve (Suc (Suc (Suc (Suc (Suc n))))) h registry thr
           \<lparr>goal = Term ''workspace'' [Term f []] # ?rest, substitution = sub, rename = K\<rparr>
      = combine (map (solve (Suc (Suc (Suc (Suc n)))) h registry thr) [])"
      by (rule solve_Suc_Ok[OF _ step_workspace_missing[OF p None]]) simp
    then show ?thesis using Term a by simp
  next
    case (Some ws)
    have "solve (Suc (Suc (Suc (Suc (Suc n))))) h registry thr
           \<lparr>goal = Term ''workspace'' [Term f []] # ?rest, substitution = sub, rename = K\<rparr>
      = solve (Suc (Suc (Suc (Suc n)))) h registry thr
           \<lparr>goal = ?rest, substitution = sub, rename = K\<rparr>"
      by (rule solve_Suc_single[OF _ step_workspace_atom[OF p Some]]) simp
    also have "\<dots> = ([], Exhausted)"
      by (rule solve_dependency_type_rigid[OF t])
    finally show ?thesis using Term a by simp
  qed
qed

(*LEMMAS*)

section \<open>The claims\<close>

text \<open>
  C9: for every pair of terms, the goal \<open>workspace_version(path, value)\<close> has the same
  answers and the same ending as \<open>workspace_field(path, version, value)\<close>, and with four
  levels of search neither reaches the bound.
\<close>

theorem workspace_version_is_field_version:
  "solve (n + 4) h reg thr (query (Term ''workspace_version'' [p, v]))
     = solve (n + 4) h reg thr (query (Term ''workspace_field'' [p, Term ''version'' [], v]))
   \<and> snd (solve (n + 4) h reg thr (query (Term ''workspace_version'' [p, v]))) \<noteq> Limit"
proof -
  have n4: "n + 4 = Suc (Suc (Suc (Suc n)))" by simp
  have a: "solve (Suc (Suc (Suc (Suc n)))) h reg thr (query (Term ''workspace_version'' [p, v]))
     = solve (Suc (Suc (Suc n))) h reg thr
         \<lparr>goal = [Term ''workspace_field'' [p, Term ''version'' [], v]],
          substitution = links (variables (Term ''workspace_field'' [p, Term ''version'' [], v])),
          rename = Suc (Suc (max_level (Term ''workspace_version'' [p, v])))\<rparr>"
    unfolding solve.simps(2)[of "Suc (Suc (Suc n))"] step_workspace_version
    by (simp add: query_def combine_single del: solve.simps)
  have b: "solve (Suc (Suc (Suc (Suc n)))) h reg thr (query (Term ''workspace_field'' [p, Term ''version'' [], v]))
     = solve (Suc (Suc (Suc n))) h reg thr
         \<lparr>goal = [Term ''workspace_field'' [p, Term ''version'' [], v]],
          substitution = links (variables (Term ''workspace_field'' [p, Term ''version'' [], v])),
          rename = Suc (Suc (max_level (Term ''workspace_version'' [p, v])))\<rparr>"
    unfolding query_def solve_workspace_field[of "Suc n"] solve_workspace_field[of n] ..
  have c: "snd (solve (Suc (Suc (Suc n))) h reg thr
         \<lparr>goal = [Term ''workspace_field'' [p, Term ''version'' [], v]],
          substitution = links (variables (Term ''workspace_field'' [p, Term ''version'' [], v])),
          rename = Suc (Suc (max_level (Term ''workspace_version'' [p, v])))\<rparr>) \<noteq> Limit"
    unfolding solve_workspace_field
    by (simp add: getProject_def split: option.splits del: solve.simps)
  show ?thesis unfolding n4 a b using c by (simp del: solve.simps)
qed

text \<open>
  C1: on a session bound to a project, \<open>workspace(X)\<close> with \<open>X\<close> unbound has exactly one
  answer per workspace of the project, in the order of the project's list of workspaces,
  each binding \<open>X\<close> to the relative path of its workspace, and the search ends by
  exhaustion: none is left out and none comes twice. Where the paths of the workspaces
  are pairwise different, so are the answers.
\<close>

theorem workspace_unbound_enumerates:
  assumes "getProject registry thr = Inr p"
  shows "solve (n + 3) h registry thr (query (Term ''workspace'' [Var x k]))
           = (map (\<lambda>w. [((x, k), Term (relativeCwd w) [])]) (workspaces p), Exhausted)
         \<and> (distinct (map relativeCwd (workspaces p)) \<longrightarrow>
              distinct (fst (solve (n + 3) h registry thr (query (Term ''workspace'' [Var x k])))))"
proof -
  have n3: "n + 3 = Suc (Suc (Suc n))" by simp
  have "solve (Suc (Suc (Suc n))) h registry thr (query (Term ''workspace'' [Var x k]))
      = combine (map (solve (Suc (Suc n)) h registry thr)
          (map (\<lambda>w. \<lparr>goal = [Term ''='' [Var x k, Term (relativeCwd w) []]],
                       substitution = [((x, k), Var x k)], rename = Suc k\<rparr>) (workspaces p)))"
    unfolding solve.simps(2)[of "Suc (Suc n)"] query_def
    by (simp add: step_workspace_var[OF assms] links_single del: solve.simps)
  also have "\<dots> = (map (\<lambda>w. [((x, k), Term (relativeCwd w) [])]) (workspaces p), Exhausted)"
    by (simp add: comp_def solve_equals equals_answers_def combine_singletons del: solve.simps)
  finally have eq: "solve (n + 3) h registry thr (query (Term ''workspace'' [Var x k]))
           = (map (\<lambda>w. [((x, k), Term (relativeCwd w) [])]) (workspaces p), Exhausted)"
    unfolding n3 .
  have "map (\<lambda>w. [((x, k), Term (relativeCwd w) [])]) (workspaces p)
          = map (\<lambda>c. [((x, k), Term c [])]) (map relativeCwd (workspaces p))"
    by (simp add: comp_def)
  then have "distinct (map relativeCwd (workspaces p)) \<longrightarrow>
      distinct (map (\<lambda>w. [((x, k), Term (relativeCwd w) [])]) (workspaces p))"
    by (simp add: distinct_map inj_on_def)
  then show ?thesis unfolding eq by simp
qed

text \<open>The sample project has three workspaces, and three answers in their order.\<close>

theorem workspace_unbound_enumerates_witness:
  "solve 3 sample_host (projects sample_world) \<lparr>session = 0\<rparr> (query (Term ''workspace'' [Var ''X'' 0]))
     = ([[((''X'', 0), Term ''.'' [])], [((''X'', 0), Term ''packages/a'' [])],
         [((''X'', 0), Term ''packages/b'' [])]], Exhausted)
   \<and> distinct (fst (solve 3 sample_host (projects sample_world) \<lparr>session = 0\<rparr>
        (query (Term ''workspace'' [Var ''X'' 0]))))"
  using workspace_unbound_enumerates[of "projects sample_world" "\<lparr>session = 0\<rparr>" sample_project 0
           sample_host "''X''" 0]
  by (simp add: getProject_def sample_world_def linkProjectToSession_def sample_project_def)


text \<open>
  C5: \<open>workspace_field(path, field, value)\<close> with an atom for the path and an atom for the
  field name, on a session bound to a project: when no workspace has the path, or the
  lookup of the field in the raw manifest finds nothing, there is no answer and no error;
  when the field is there and the value argument is an unbound variable, there is exactly
  one answer, binding the variable to the string form of the field.
\<close>

theorem workspace_field_absent_or_present:
  assumes "getProject registry thr = Inr p"
  shows "(tryWorkspaceByCwd p cwd = None \<longrightarrow>
            solve (n + 3) h registry thr (query (Term ''workspace_field'' [Term cwd [], Term f [], v]))
              = ([], Exhausted))
       \<and> (\<forall>w. tryWorkspaceByCwd p cwd = Some w \<and> getPath h (raw (manifest w)) f = None \<longrightarrow>
            solve (n + 3) h registry thr (query (Term ''workspace_field'' [Term cwd [], Term f [], v]))
              = ([], Exhausted))
       \<and> (\<forall>w val. tryWorkspaceByCwd p cwd = Some w \<and> getPath h (raw (manifest w)) f = Some val \<longrightarrow>
            solve (n + 3) h registry thr
                (query (Term ''workspace_field'' [Term cwd [], Term f [], Var x k]))
              = ([[((x, k), Term (toStr h val) [])]], Exhausted))"
proof -
  have n3: "n + 3 = Suc (Suc (Suc n))" by simp
  show ?thesis
    unfolding n3 query_def solve_workspace_field
    using assms
    by (simp add: isAtom_def equals_answers_def links_single del: solve.simps)
qed

text \<open>
  In the sample project: no workspace at \<open>packages/zzz\<close>, no version in the root
  manifest, and version \<open>1.0.0\<close> in \<open>packages/a\<close>.
\<close>

theorem workspace_field_absent_or_present_witness:
  "solve 3 sample_host (projects sample_world) \<lparr>session = 0\<rparr>
      (query (Term ''workspace_field'' [Term ''packages/zzz'' [], Term ''version'' [], Var ''V'' 0]))
     = ([], Exhausted)
   \<and> solve 3 sample_host (projects sample_world) \<lparr>session = 0\<rparr>
      (query (Term ''workspace_field'' [Term ''.'' [], Term ''version'' [], Var ''V'' 0]))
     = ([], Exhausted)
   \<and> solve 3 sample_host (projects sample_world) \<lparr>session = 0\<rparr>
      (query (Term ''workspace_field'' [Term ''packages/a'' [], Term ''version'' [], Var ''V'' 0]))
     = ([[((''V'', 0), Term ''1.0.0'' [])]], Exhausted)"
proof -
  have r: "getProject (projects sample_world) \<lparr>session = 0\<rparr> = Inr sample_project"
    by (simp add: getProject_def sample_world_def linkProjectToSession_def)
  have a: "tryWorkspaceByCwd sample_project ''packages/zzz'' = None"
    by (simp add: tryWorkspaceByCwd_def sample_project_def)
  have b: "tryWorkspaceByCwd sample_project ''.'' = Some (hd (workspaces sample_project))
     \<and> getPath sample_host (raw (manifest (hd (workspaces sample_project)))) ''version'' = None"
    by (simp add: tryWorkspaceByCwd_def sample_project_def sample_host_def)
  have c: "tryWorkspaceByCwd sample_project ''packages/a'' = Some (workspaces sample_project ! 1)
     \<and> getPath sample_host (raw (manifest (workspaces sample_project ! 1))) ''version''
          = Some (JString ''1.0.0'')"
    by (simp add: tryWorkspaceByCwd_def sample_project_def sample_host_def)
  have t: "toStr sample_host (JString ''1.0.0'') = ''1.0.0''" by (simp add: sample_host_def)
  from workspace_field_absent_or_present[OF r, of "''packages/zzz''" 0 sample_host "''version''" "Var ''V'' 0"] a
  have 1: "solve 3 sample_host (projects sample_world) \<lparr>session = 0\<rparr>
      (query (Term ''workspace_field'' [Term ''packages/zzz'' [], Term ''version'' [], Var ''V'' 0]))
     = ([], Exhausted)" by simp
  from workspace_field_absent_or_present[OF r, of "''.''" 0 sample_host "''version''" "Var ''V'' 0"] b
  have 2: "solve 3 sample_host (projects sample_world) \<lparr>session = 0\<rparr>
      (query (Term ''workspace_field'' [Term ''.'' [], Term ''version'' [], Var ''V'' 0]))
     = ([], Exhausted)" by simp
  from workspace_field_absent_or_present[OF r, of "''packages/a''" 0 sample_host "''version''" _ "''V''" 0] c t
  have 3: "solve 3 sample_host (projects sample_world) \<lparr>session = 0\<rparr>
      (query (Term ''workspace_field'' [Term ''packages/a'' [], Term ''version'' [], Var ''V'' 0]))
     = ([[((''V'', 0), Term ''1.0.0'' [])]], Exhausted)" by simp
  from 1 2 3 show ?thesis by simp
qed

text \<open>
  C3: on a session bound to a project, \<open>workspace_ident(P, I)\<close> with two different unbound
  variables has exactly one answer per workspace, in the project's order, binding \<open>P\<close> to
  the relative path and \<open>I\<close> to the stringified identifier of that workspace. With \<open>P\<close>
  unbound and the identifier an atom that \<open>parseIdent\<close> accepts, the answers are the paths
  of the workspaces whose identifier has the same hash as the parsed atom, one answer for
  each of them: as many answers as workspaces share the identifier.
\<close>

theorem workspace_ident_enumerates:
  assumes "getProject registry thr = Inr p"
  shows "((x, k) \<noteq> (y, l) \<longrightarrow>
            solve (n + 5) h registry thr (query (Term ''workspace_ident'' [Var x k, Var y l]))
              = (map (\<lambda>w. [((x, k), Term (relativeCwd w) []),
                           ((y, l), Term (stringifyIdent h (locator w)) [])]) (workspaces p),
                 Exhausted))
       \<and> (\<forall>i. parseIdent h a = Some i \<longrightarrow>
            solve (n + 3) h registry thr (query (Term ''workspace_ident'' [Var x k, Term a []]))
              = (map (\<lambda>w. [((x, k), Term (relativeCwd w) [])])
                   (filter (\<lambda>w. identHash (locator w) = identHash i) (workspaces p)),
                 Exhausted)
            \<and> length (fst (solve (n + 3) h registry thr
                   (query (Term ''workspace_ident'' [Var x k, Term a []]))))
              = length (filter (\<lambda>w. identHash (locator w) = identHash i) (workspaces p)))"
proof -
  have n5: "n + 5 = Suc (Suc (Suc (Suc (Suc n))))" and n3: "n + 3 = Suc (Suc (Suc n))" by simp_all
  have a: "solve (Suc (Suc (Suc (Suc (Suc n))))) h registry thr
             (query (Term ''workspace_ident'' [Var x k, Var y l]))
              = (map (\<lambda>w. [((x, k), Term (relativeCwd w) []),
                           ((y, l), Term (stringifyIdent h (locator w)) [])]) (workspaces p),
                 Exhausted)" if d: "(x, k) \<noteq> (y, l)"
  proof -
    have l: "links [(x, k), (y, l)] = [((x, k), Var x k), ((y, l), Var y l)]"
      using links_pair[OF d] by simp
    show ?thesis
      unfolding solve.simps(2)[of "Suc (Suc (Suc (Suc n)))"] query_def
      using d
      by (auto simp add: step_workspace_ident_vars[OF assms] l comp_def solve_conj_equals[OF d]
          combine_singletons simp del: solve.simps)
  qed
  have b: "solve (Suc (Suc (Suc n))) h registry thr (query (Term ''workspace_ident'' [Var x k, Term a []]))
              = (map (\<lambda>w. [((x, k), Term (relativeCwd w) [])])
                   (filter (\<lambda>w. identHash (locator w) = identHash i) (workspaces p)),
                 Exhausted)" if i: "parseIdent h a = Some i" for i
    unfolding solve.simps(2)[of "Suc (Suc n)"] query_def
    by (simp add: step_workspace_ident_atom[OF assms i] links_single comp_def solve_equals
        equals_answers_def combine_singletons del: solve.simps)
  show ?thesis unfolding n5 n3 using a b by (simp del: solve.simps)
qed

text \<open>
  In the sample project each of the three workspaces gives one pair, and two workspaces
  share the identifier \<open>lib\<close>.
\<close>

theorem workspace_ident_enumerates_witness:
  "solve 5 sample_host (projects sample_world) \<lparr>session = 0\<rparr>
      (query (Term ''workspace_ident'' [Var ''P'' 0, Var ''I'' 0]))
     = ([[((''P'', 0), Term ''.'' []), ((''I'', 0), Term ''root'' [])],
         [((''P'', 0), Term ''packages/a'' []), ((''I'', 0), Term ''lib'' [])],
         [((''P'', 0), Term ''packages/b'' []), ((''I'', 0), Term ''lib'' [])]], Exhausted)
   \<and> solve 3 sample_host (projects sample_world) \<lparr>session = 0\<rparr>
      (query (Term ''workspace_ident'' [Var ''P'' 0, Term ''lib'' []]))
     = ([[((''P'', 0), Term ''packages/a'' [])], [((''P'', 0), Term ''packages/b'' [])]], Exhausted)
   \<and> length (fst (solve 3 sample_host (projects sample_world) \<lparr>session = 0\<rparr>
      (query (Term ''workspace_ident'' [Var ''P'' 0, Term ''lib'' []])))) = 2"
proof -
  have r: "getProject (projects sample_world) \<lparr>session = 0\<rparr> = Inr sample_project"
    by (simp add: getProject_def sample_world_def linkProjectToSession_def)
  have i: "parseIdent sample_host ''lib'' = Some (mk_ident ''lib'')"
    by (simp add: sample_host_def)
  from workspace_ident_enumerates[OF r, of "''P''" 0 "''I''" 0 0 sample_host "''lib''"] i
  show ?thesis
    by (simp add: sample_project_def sample_host_def mk_ident_def)
qed

text \<open>
  C8: \<open>workspace_field_test(path, field, code, argv)\<close> with atoms for the path, the field
  name and the expression and an instantiated list of extra arguments, on a session bound
  to a project. When no workspace has the path, or the field is not in the raw manifest,
  there is no answer and no error. When the field is there, the expression is evaluated
  on its value and the extra arguments: a truthy result gives exactly one answer (the
  query's own bindings), a falsy result gives no answer and no error, and an evaluation
  that throws ends the query with the evaluation error.
\<close>

theorem workspace_field_test_outcomes:
  assumes "getProject registry thr = Inr p" and "isInstantiatedList argv"
  shows
    "(tryWorkspaceByCwd p cwd = None \<longrightarrow>
        solve (n + 2) h registry thr
          (query (Term ''workspace_field_test'' [Term cwd [], Term f [], Term code [], argv]))
        = ([], Exhausted))
   \<and> (\<forall>w. tryWorkspaceByCwd p cwd = Some w \<and> getPath h (raw (manifest w)) f = None \<longrightarrow>
        solve (n + 2) h registry thr
          (query (Term ''workspace_field_test'' [Term cwd [], Term f [], Term code [], argv]))
        = ([], Exhausted))
   \<and> (\<forall>w val. tryWorkspaceByCwd p cwd = Some w \<and> getPath h (raw (manifest w)) f = Some val \<longrightarrow>
        (runInNewContext h code val (toJavaScript argv) = Some True \<longrightarrow>
           solve (n + 2) h registry thr
             (query (Term ''workspace_field_test'' [Term cwd [], Term f [], Term code [], argv]))
           = ([substitution
                 (query (Term ''workspace_field_test'' [Term cwd [], Term f [], Term code [], argv]))],
              Exhausted))
      \<and> (runInNewContext h code val (toJavaScript argv) = Some False \<longrightarrow>
           solve (n + 2) h registry thr
             (query (Term ''workspace_field_test'' [Term cwd [], Term f [], Term code [], argv]))
           = ([], Exhausted))
      \<and> (runInNewContext h code val (toJavaScript argv) = None \<longrightarrow>
           solve (n + 2) h registry thr
             (query (Term ''workspace_field_test'' [Term cwd [], Term f [], Term code [], argv]))
           = ([], Raised SandboxEvaluationError)))"
proof -
  have n2: "n + 2 = Suc (Suc n)" by simp
  show ?thesis
    unfolding n2 query_def
    using assms
    by (simp del: solve.simps add: solve.simps(2)[of "Suc n"] solve.simps(2)[of n]
        step_workspace_field_test isAtom_def success_def replace_def)
qed

text \<open>
  On the sample project: a missing workspace, a missing field, a true expression, a false
  one, and one the sample evaluator cannot parse.
\<close>

theorem workspace_field_test_outcomes_witness:
  "solve 2 sample_host (projects sample_world) \<lparr>session = 0\<rparr>
      (query (Term ''workspace_field_test''
         [Term ''packages/zzz'' [], Term ''version'' [], Term ''true'' [], Term ''[]'' []]))
     = ([], Exhausted)
   \<and> solve 2 sample_host (projects sample_world) \<lparr>session = 0\<rparr>
      (query (Term ''workspace_field_test''
         [Term ''.'' [], Term ''version'' [], Term ''true'' [], Term ''[]'' []]))
     = ([], Exhausted)
   \<and> solve 2 sample_host (projects sample_world) \<lparr>session = 0\<rparr>
      (query (Term ''workspace_field_test''
         [Term ''packages/a'' [], Term ''version'' [], Term ''true'' [], Term ''[]'' []]))
     = ([[]], Exhausted)
   \<and> solve 2 sample_host (projects sample_world) \<lparr>session = 0\<rparr>
      (query (Term ''workspace_field_test''
         [Term ''packages/a'' [], Term ''version'' [], Term ''false'' [], Term ''[]'' []]))
     = ([], Exhausted)
   \<and> solve 2 sample_host (projects sample_world) \<lparr>session = 0\<rparr>
      (query (Term ''workspace_field_test''
         [Term ''packages/a'' [], Term ''version'' [], Term ''(('' [], Term ''[]'' []]))
     = ([], Raised SandboxEvaluationError)"
proof -
  have r: "getProject (projects sample_world) \<lparr>session = 0\<rparr> = Inr sample_project"
    by (simp add: getProject_def sample_world_def linkProjectToSession_def)
  have l: "isInstantiatedList (Term ''[]'' [])" by simp
  have a: "tryWorkspaceByCwd sample_project ''packages/zzz'' = None"
    by (simp add: tryWorkspaceByCwd_def sample_project_def)
  have b: "tryWorkspaceByCwd sample_project ''.'' = Some (hd (workspaces sample_project))
     \<and> getPath sample_host (raw (manifest (hd (workspaces sample_project)))) ''version'' = None"
    by (simp add: tryWorkspaceByCwd_def sample_project_def sample_host_def)
  have c: "tryWorkspaceByCwd sample_project ''packages/a'' = Some (workspaces sample_project ! 1)
     \<and> getPath sample_host (raw (manifest (workspaces sample_project ! 1))) ''version''
          = Some (JString ''1.0.0'')"
    by (simp add: tryWorkspaceByCwd_def sample_project_def sample_host_def)
  have t: "runInNewContext sample_host ''true'' (JString ''1.0.0'') (toJavaScript (Term ''[]'' [])) = Some True"
    and f: "runInNewContext sample_host ''false'' (JString ''1.0.0'') (toJavaScript (Term ''[]'' [])) = Some False"
    and m: "runInNewContext sample_host ''(('' (JString ''1.0.0'') (toJavaScript (Term ''[]'' [])) = None"
    by (simp_all add: sample_host_def sample_runInNewContext_def)
  have q: "substitution (query (Term ''workspace_field_test''
         [Term ''packages/a'' [], Term ''version'' [], Term ''true'' [], Term ''[]'' []])) = []"
    by (simp add: query_def links_def)
  from workspace_field_test_outcomes[OF r l, of "''packages/zzz''" 0 sample_host "''version''" "''true''"] a
  have 1: "solve 2 sample_host (projects sample_world) \<lparr>session = 0\<rparr>
      (query (Term ''workspace_field_test''
         [Term ''packages/zzz'' [], Term ''version'' [], Term ''true'' [], Term ''[]'' []]))
     = ([], Exhausted)" by (simp del: solve.simps add: numeral_2_eq_2)
  from workspace_field_test_outcomes[OF r l, of "''.''" 0 sample_host "''version''" "''true''"] b
  have 2: "solve 2 sample_host (projects sample_world) \<lparr>session = 0\<rparr>
      (query (Term ''workspace_field_test''
         [Term ''.'' [], Term ''version'' [], Term ''true'' [], Term ''[]'' []]))
     = ([], Exhausted)" by (simp del: solve.simps add: numeral_2_eq_2)
  from workspace_field_test_outcomes[OF r l, of "''packages/a''" 0 sample_host "''version''" "''true''"] c t q
  have 3: "solve 2 sample_host (projects sample_world) \<lparr>session = 0\<rparr>
      (query (Term ''workspace_field_test''
         [Term ''packages/a'' [], Term ''version'' [], Term ''true'' [], Term ''[]'' []]))
     = ([[]], Exhausted)" by (simp del: solve.simps add: numeral_2_eq_2)
  from workspace_field_test_outcomes[OF r l, of "''packages/a''" 0 sample_host "''version''" "''false''"] c f
  have 4: "solve 2 sample_host (projects sample_world) \<lparr>session = 0\<rparr>
      (query (Term ''workspace_field_test''
         [Term ''packages/a'' [], Term ''version'' [], Term ''false'' [], Term ''[]'' []]))
     = ([], Exhausted)" by (simp del: solve.simps add: numeral_2_eq_2)
  from workspace_field_test_outcomes[OF r l, of "''packages/a''" 0 sample_host "''version''" "''((''"] c m
  have 5: "solve 2 sample_host (projects sample_world) \<lparr>session = 0\<rparr>
      (query (Term ''workspace_field_test''
         [Term ''packages/a'' [], Term ''version'' [], Term ''(('' [], Term ''[]'' []]))
     = ([], Raised SandboxEvaluationError)" by (simp del: solve.simps add: numeral_2_eq_2)
  from 1 2 3 4 5 show ?thesis by simp
qed

text \<open>
  C6, as stated, fails: on a session with no project, \<open>workspace_field/3\<close> called with an
  unbound path raises an instantiation error, not the host-binding error, because it
  checks its arguments before it looks the project up.
\<close>

theorem unbound_session_counterexample:
  "workspace_field_3 sample_host (\<lambda>s. None) \<lparr>session = 0\<rparr>
      (query (Term ''workspace_field'' [Var ''W'' 0, Term ''version'' [], Var ''V'' 0]))
      (Term ''workspace_field'' [Var ''W'' 0, Term ''version'' [], Var ''V'' 0])
     = Inl (InstantiationError (''workspace_field'', 3))
   \<and> solve 3 sample_host (\<lambda>s. None) \<lparr>session = 0\<rparr>
        (query (Term ''workspace_field'' [Var ''W'' 0, Term ''version'' [], Var ''V'' 0]))
     = ([], Raised (InstantiationError (''workspace_field'', 3)))
   \<and> InstantiationError (''workspace_field'', 3) \<noteq> HostBindingError"
proof -
  have "solve (Suc (Suc (Suc 0))) sample_host (\<lambda>s. None) \<lparr>session = 0\<rparr>
        (query (Term ''workspace_field'' [Var ''W'' 0, Term ''version'' [], Var ''V'' 0]))
     = ([], Raised (InstantiationError (''workspace_field'', 3)))"
    unfolding query_def solve_workspace_field by (simp add: isAtom_def)
  then show ?thesis by (simp add: isAtom_def numeral_3_eq_3)
qed

text \<open>
  C6, amended: on a session with no project bound, \<open>workspace/1\<close> and
  \<open>workspace_ident/2\<close> raise the host-binding error whatever their arguments are;
  \<open>workspace_field/3\<close>, \<open>workspace_field_test/4\<close> and
  \<open>internal_workspace_has_dependency/4\<close> raise it when the arguments they require to be
  bound are atoms (and the extras an instantiated list), and raise an instantiation error
  otherwise. None of the five fails silently or succeeds.
\<close>

theorem unbound_session_raises:
  assumes "getProject registry thr = Inl HostBindingError"
  shows "workspace_1 h registry thr point (Term f [a]) = Inl HostBindingError
       \<and> workspace_ident_2 h registry thr point (Term f [a, b]) = Inl HostBindingError
       \<and> workspace_field_3 h registry thr point (Term f [a, b, c])
           = (if isAtom a \<and> isAtom b then Inl HostBindingError
              else Inl (InstantiationError (f, 3)))
       \<and> workspace_field_test_4 h registry thr point (Term f [a, b, c, d])
           = (if isAtom a \<and> isAtom b \<and> isAtom c \<and> isInstantiatedList d then Inl HostBindingError
              else Inl (InstantiationError (f, 4)))
       \<and> internal_workspace_has_dependency_4 h registry thr point (Term f [a, b, c, d])
           = (if isAtom a \<and> isAtom d then Inl HostBindingError
              else Inl (InstantiationError (f, 4)))"
  using assms by simp

text \<open>Each of the five predicates, with well-formed arguments, on the empty registry.\<close>

theorem unbound_session_raises_witness:
  "workspace_1 sample_host (\<lambda>s. None) \<lparr>session = 0\<rparr>
      (query (Term ''workspace'' [Var ''W'' 0])) (Term ''workspace'' [Var ''W'' 0])
     = Inl HostBindingError
   \<and> workspace_ident_2 sample_host (\<lambda>s. None) \<lparr>session = 0\<rparr>
      (query (Term ''workspace'' [Var ''W'' 0])) (Term ''workspace_ident'' [Var ''W'' 0, Var ''I'' 0])
     = Inl HostBindingError
   \<and> workspace_field_3 sample_host (\<lambda>s. None) \<lparr>session = 0\<rparr>
      (query (Term ''workspace'' [Var ''W'' 0]))
      (Term ''workspace_field'' [Term ''.'' [], Term ''version'' [], Var ''V'' 0])
     = Inl HostBindingError
   \<and> workspace_field_test_4 sample_host (\<lambda>s. None) \<lparr>session = 0\<rparr>
      (query (Term ''workspace'' [Var ''W'' 0]))
      (Term ''workspace_field_test'' [Term ''.'' [], Term ''version'' [], Term ''true'' [], Term ''[]'' []])
     = Inl HostBindingError
   \<and> internal_workspace_has_dependency_4 sample_host (\<lambda>s. None) \<lparr>session = 0\<rparr>
      (query (Term ''workspace'' [Var ''W'' 0]))
      (Term ''internal_workspace_has_dependency''
         [Term ''.'' [], Var ''I'' 0, Var ''R'' 0, Term ''dependencies'' []])
     = Inl HostBindingError"
proof -
  have r: "getProject (\<lambda>s. None) \<lparr>session = 0\<rparr> = Inl HostBindingError"
    by (simp add: getProject_def)
  have 1: "isAtom (Term ''.'' [])" "isAtom (Term ''version'' [])" "isAtom (Term ''true'' [])"
    "isAtom (Term ''dependencies'' [])" "isInstantiatedList (Term ''[]'' [])"
    by (simp_all add: isAtom_def)
  from unbound_session_raises[OF r, of sample_host "query (Term ''workspace'' [Var ''W'' 0])"
      "''workspace''" "Var ''W'' 0"]
  have a: "workspace_1 sample_host (\<lambda>s. None) \<lparr>session = 0\<rparr>
      (query (Term ''workspace'' [Var ''W'' 0])) (Term ''workspace'' [Var ''W'' 0])
     = Inl HostBindingError" by blast
  from unbound_session_raises[OF r, of sample_host "query (Term ''workspace'' [Var ''W'' 0])"
      "''workspace_ident''" "Var ''W'' 0" "Var ''I'' 0"]
  have b: "workspace_ident_2 sample_host (\<lambda>s. None) \<lparr>session = 0\<rparr>
      (query (Term ''workspace'' [Var ''W'' 0])) (Term ''workspace_ident'' [Var ''W'' 0, Var ''I'' 0])
     = Inl HostBindingError" by blast
  from unbound_session_raises[OF r, of sample_host "query (Term ''workspace'' [Var ''W'' 0])"
      "''workspace_field''" "Term ''.'' []" "Term ''version'' []" "Var ''V'' 0"] 1
  have c: "workspace_field_3 sample_host (\<lambda>s. None) \<lparr>session = 0\<rparr>
      (query (Term ''workspace'' [Var ''W'' 0]))
      (Term ''workspace_field'' [Term ''.'' [], Term ''version'' [], Var ''V'' 0])
     = Inl HostBindingError" by simp
  from unbound_session_raises[OF r, of sample_host "query (Term ''workspace'' [Var ''W'' 0])"
      "''workspace_field_test''" "Term ''.'' []" "Term ''version'' []" "Term ''true'' []" "Term ''[]'' []"] 1
  have d: "workspace_field_test_4 sample_host (\<lambda>s. None) \<lparr>session = 0\<rparr>
      (query (Term ''workspace'' [Var ''W'' 0]))
      (Term ''workspace_field_test'' [Term ''.'' [], Term ''version'' [], Term ''true'' [], Term ''[]'' []])
     = Inl HostBindingError" by simp
  from unbound_session_raises[OF r, of sample_host "query (Term ''workspace'' [Var ''W'' 0])"
      "''internal_workspace_has_dependency''" "Term ''.'' []" "Var ''I'' 0" "Var ''R'' 0" "Term ''dependencies'' []"] 1
  have e: "internal_workspace_has_dependency_4 sample_host (\<lambda>s. None) \<lparr>session = 0\<rparr>
      (query (Term ''workspace'' [Var ''W'' 0]))
      (Term ''internal_workspace_has_dependency''
         [Term ''.'' [], Var ''I'' 0, Var ''R'' 0, Term ''dependencies'' []])
     = Inl HostBindingError" by simp
  from a b c d e show ?thesis by blast
qed

text \<open>
  C7, as stated, fails: nothing keeps \<open>linkProjectToSession\<close> from being called again
  for a session that is linked already, and the second call replaces the project. After
  the sample project and then an empty project are linked to session 0, the lookup gives
  the empty project.
\<close>

theorem relink_counterexample:
  "getProject
      (projects (linkProjectToSession
         (linkProjectToSession \<lparr>projects = (\<lambda>s. None), consulted = (\<lambda>s. [])\<rparr> 0 sample_project)
         0 \<lparr>workspaces = []\<rparr>))
      \<lparr>session = 0\<rparr>
     = Inr \<lparr>workspaces = []\<rparr>
   \<and> \<lparr>workspaces = []\<rparr> \<noteq> sample_project"
  by (simp add: getProject_def linkProjectToSession_def sample_project_def)

text \<open>
  C7, amended: the registry holds for each session the project of the latest
  \<open>linkProjectToSession\<close> for it. Once a session is linked to a project, the lookup for
  that session gives this project after any sequence of queries (in any session) and of
  links of other sessions, that is, for as long as \<open>linkProjectToSession\<close> is not called
  again for the same session.
\<close>

theorem linked_project_is_kept:
  assumes "\<forall>e \<in> set es. \<not> relinks (session thr) e"
  shows "getProject (projects (foldl exec (linkProjectToSession w (session thr) p) es)) thr = Inr p"
proof -
  have "projects (foldl exec (linkProjectToSession w (session thr) p) es) (session thr)
      = projects (linkProjectToSession w (session thr) p) (session thr)"
    using assms by (rule foldl_exec_keeps)
  then show ?thesis by (simp add: getProject_def linkProjectToSession_def)
qed

text \<open>Queries in two sessions and the link of another session leave session 0 as it was.\<close>

theorem linked_project_is_kept_witness:
  "getProject
     (projects (foldl exec
        (linkProjectToSession \<lparr>projects = (\<lambda>s. None), consulted = (\<lambda>s. [])\<rparr> 0 sample_project)
        [RunQuery 0 (Term ''workspace'' [Var ''X'' 0]),
         LinkProject 1 \<lparr>workspaces = []\<rparr>,
         RunQuery 1 (Term ''workspace'' [Var ''X'' 0]),
         RunQuery 0 (Term ''workspace_ident'' [Var ''X'' 0, Var ''Y'' 0])]))
     \<lparr>session = 0\<rparr>
   = Inr sample_project"
  using linked_project_is_kept[of "[RunQuery 0 (Term ''workspace'' [Var ''X'' 0]),
         LinkProject 1 \<lparr>workspaces = []\<rparr>,
         RunQuery 1 (Term ''workspace'' [Var ''X'' 0]),
         RunQuery 0 (Term ''workspace_ident'' [Var ''X'' 0, Var ''Y'' 0])]" "\<lparr>session = 0\<rparr>"
       "\<lparr>projects = (\<lambda>s. None), consulted = (\<lambda>s. [])\<rparr>" sample_project]
  by simp

text \<open>
  C2: on a session bound to a project, for a path atom that names a workspace and a
  dependency-type atom that names one of the three partitions,
  \<open>workspace_has_dependency(path, Ident, Range, type)\<close> with two different unbound
  variables has exactly one answer per dependency the workspace declares under that
  type, in declaration order, binding \<open>Ident\<close> to the stringified identifier and \<open>Range\<close>
  to the version range of that dependency.
\<close>

theorem workspace_has_dependency_enumerates:
  assumes "getProject registry thr = Inr p"
    and "tryWorkspaceByCwd p cwd = Some ws"
    and "manifest_get (manifest ws) ty = Some deps"
    and "(i, ki) \<noteq> (r, kr)"
  shows "solve (n + 10) h registry thr
           (query (Term ''workspace_has_dependency'' [Term cwd [], Var i ki, Var r kr, Term ty []]))
         = (map (\<lambda>d. [((i, ki), Term (stringifyIdent h (descriptorIdent d)) []),
                      ((r, kr), Term (range d) [])]) (map snd deps),
            Exhausted)"
proof -
  let ?g = "Term ''workspace_has_dependency'' [Term cwd [], Var i ki, Var r kr, Term ty []]"
  let ?K = "Suc (Suc (max_level ?g))"
  let ?sub = "[((i, ki), Var i ki), ((r, kr), Var r kr)]"
  let ?helper = "Term ''internal_workspace_has_dependency'' [Term cwd [], Var i ki, Var r kr, Term ty []]"
  have n10: "n + 10 = Suc (Suc (Suc (Suc (Suc (Suc (Suc (Suc (Suc (Suc n)))))))))" by simp
  have l: "links (variables ?g) = ?sub"
    using links_pair[OF assms(4)] by simp
  have "solve (n + 10) h registry thr (query ?g)
      = solve (Suc (Suc (Suc (Suc (Suc (Suc (Suc n))))))) h registry thr
          \<lparr>goal = [Term ''workspace'' [Term cwd []], Term ''dependency_type'' [Term ty []], ?helper],
           substitution = ?sub, rename = ?K\<rparr>"
    unfolding n10 solve_workspace_has_dependency l ..
  also have "\<dots> = solve (Suc (Suc (Suc (Suc (Suc (Suc n)))))) h registry thr
          \<lparr>goal = [Term ''dependency_type'' [Term ty []], ?helper],
           substitution = ?sub, rename = ?K\<rparr>"
    by (rule solve_Suc_single[OF _ step_workspace_atom[OF assms(1,2)]]) simp
  also have "\<dots> = solve (Suc (Suc (Suc (Suc (Suc n))))) h registry thr
          \<lparr>goal = [?helper], substitution = ?sub, rename = Suc ?K\<rparr>"
    by (rule solve_Suc_single[OF _ step_dependency_type_atom[OF manifest_get_Some[OF assms(3)]]]) simp
  also have "\<dots> = combine (map (solve (Suc (Suc (Suc (Suc n)))) h registry thr)
       (map (\<lambda>d. \<lparr>goal = [Term '',''
                                [Term ''='' [Var i ki, Term (stringifyIdent h (descriptorIdent d)) []],
                                 Term ''='' [Var r kr, Term (range d) []]]],
                      substitution = ?sub, rename = Suc ?K\<rparr>) (map snd deps)))"
    by (rule solve_Suc_Ok[OF _ step_internal_var[OF assms(1,2,3)]]) simp
  also have "\<dots> = (map (\<lambda>d. [((i, ki), Term (stringifyIdent h (descriptorIdent d)) []),
                      ((r, kr), Term (range d) [])]) (map snd deps), Exhausted)"
    using assms(4)
    by (auto simp add: comp_def solve_conj_equals[OF assms(4)] combine_singletons
        simp del: solve.simps max_level.simps)
  finally show ?thesis .
qed

text \<open>
  The workspace \<open>packages/a\<close> of the sample project declares \<open>a: ^1.0.0\<close> and
  \<open>b: ^2.0.0\<close> under \<open>dependencies\<close>: exactly two answers, in that order.
\<close>

theorem workspace_has_dependency_enumerates_witness:
  "solve 10 sample_host (projects sample_world) \<lparr>session = 0\<rparr>
      (query (Term ''workspace_has_dependency''
         [Term ''packages/a'' [], Var ''Ident'' 0, Var ''Range'' 0, Term ''dependencies'' []]))
     = ([[((''Ident'', 0), Term ''a'' []), ((''Range'', 0), Term ''^1.0.0'' [])],
         [((''Ident'', 0), Term ''b'' []), ((''Range'', 0), Term ''^2.0.0'' [])]], Exhausted)"
proof -
  have r: "getProject (projects sample_world) \<lparr>session = 0\<rparr> = Inr sample_project"
    by (simp add: getProject_def sample_world_def linkProjectToSession_def)
  have w: "tryWorkspaceByCwd sample_project ''packages/a'' = Some (workspaces sample_project ! 1)"
    by (simp add: tryWorkspaceByCwd_def sample_project_def)
  have m: "manifest_get (manifest (workspaces sample_project ! 1)) ''dependencies''
      = Some [dep ''a'' ''^1.0.0'', dep ''b'' ''^2.0.0'']"
    by (simp add: manifest_get_def sample_project_def)
  have d: "(''Ident'', 0::nat) \<noteq> (''Range'', 0)" by simp
  from workspace_has_dependency_enumerates[OF r w m d, of 0 sample_host]
  show ?thesis
    by (simp add: dep_def mk_ident_def sample_host_def del: solve.simps)
qed

text \<open>
  C4, as stated, fails for the dependency type of \<open>workspace_has_dependency/4\<close>: with the
  compound term \<open>foo(bar)\<close> as the dependency type and the path of a workspace of the
  sample project, the query ends by exhaustion with no answer and no error. The rule of
  the predicate solves \<open>dependency_type/1\<close> first, whose three facts do not unify with
  a compound term, so the helper that would raise is not called.
\<close>

theorem compound_dependency_type_counterexample:
  "solve 8 sample_host (projects sample_world) \<lparr>session = 0\<rparr>
      (query (Term ''workspace_has_dependency''
         [Term ''packages/a'' [], Var ''Ident'' 0, Var ''Range'' 0, Term ''foo'' [Term ''bar'' []]]))
     = ([], Exhausted)
   \<and> \<not> isAtom (Term ''foo'' [Term ''bar'' []]) \<and> \<not> isVariable (Term ''foo'' [Term ''bar'' []])"
proof -
  have r: "getProject (projects sample_world) \<lparr>session = 0\<rparr> = Inr sample_project"
    by (simp add: getProject_def sample_world_def linkProjectToSession_def)
  have t: "\<not> isAtom (Term ''foo'' [Term ''bar'' []])" "\<not> isVariable (Term ''foo'' [Term ''bar'' []])"
    by (simp_all add: isAtom_def isVariable_def)
  have c: "isAtom (Term ''packages/a'' []) \<or> isVariable (Term ''packages/a'' [])"
    by (simp add: isAtom_def)
  have n8: "(8::nat) = Suc (Suc (Suc (Suc (Suc (Suc (Suc (Suc 0)))))))" by simp
  have "solve 8 sample_host (projects sample_world) \<lparr>session = 0\<rparr>
      (query (Term ''workspace_has_dependency''
         [Term ''packages/a'' [], Var ''Ident'' 0, Var ''Range'' 0, Term ''foo'' [Term ''bar'' []]]))
     = ([], Exhausted)"
    unfolding n8 solve_workspace_has_dependency
    by (rule solve_workspace_then_rigid_type[OF r c t])
  then show ?thesis using t by simp
qed

text \<open>
  C4, amended: on a session bound to a project, for a term \<open>t\<close> that is neither an atom
  nor a variable: \<open>workspace_ident/2\<close> with \<open>t\<close> as the path, \<open>workspace_field/3\<close> with
  \<open>t\<close> as the path or as the field name, and \<open>workspace_has_dependency/4\<close> with \<open>t\<close> as
  the path raise an instantiation error (for the last one it is raised by
  \<open>workspace/1\<close>); \<open>workspace_has_dependency/4\<close> with \<open>t\<close> as the dependency type and a
  path that is an atom or a variable has no answer and raises nothing.
\<close>

theorem compound_argument_outcomes:
  assumes "getProject registry thr = Inr p" and "\<not> isAtom t" and "\<not> isVariable t"
  shows "solve (n + 1) h registry thr (query (Term ''workspace_ident'' [t, u]))
           = ([], Raised (InstantiationError (''workspace_ident'', 2)))
       \<and> solve (n + 3) h registry thr (query (Term ''workspace_field'' [t, f, v]))
           = ([], Raised (InstantiationError (''workspace_field'', 3)))
       \<and> solve (n + 3) h registry thr (query (Term ''workspace_field'' [c, t, v]))
           = ([], Raised (InstantiationError (''workspace_field'', 3)))
       \<and> solve (n + 6) h registry thr (query (Term ''workspace_has_dependency'' [t, i, r, ty]))
           = ([], Raised (InstantiationError (''workspace'', 1)))
       \<and> (isAtom c \<or> isVariable c \<longrightarrow>
            solve (n + 8) h registry thr (query (Term ''workspace_has_dependency'' [c, i, r, t]))
              = ([], Exhausted))"
proof -
  have n1: "n + 1 = Suc n" and n3: "n + 3 = Suc (Suc (Suc n))"
    and n6: "n + 6 = Suc (Suc (Suc (Suc (Suc (Suc n)))))"
    and n8: "n + 8 = Suc (Suc (Suc (Suc (Suc (Suc (Suc (Suc n)))))))" by simp_all
  have a: "solve (Suc n) h registry thr (query (Term ''workspace_ident'' [t, u]))
           = ([], Raised (InstantiationError (''workspace_ident'', 2)))"
    using assms
    by (simp add: query_def step_def call_def tauModule_workspace_ident)
  have b: "solve (Suc (Suc (Suc n))) h registry thr (query (Term ''workspace_field'' [t, f, v]))
           = ([], Raised (InstantiationError (''workspace_field'', 3)))"
    unfolding query_def solve_workspace_field using assms by simp
  have c: "solve (Suc (Suc (Suc n))) h registry thr (query (Term ''workspace_field'' [c, t, v]))
           = ([], Raised (InstantiationError (''workspace_field'', 3)))"
    unfolding query_def solve_workspace_field using assms by simp
  have d: "solve (Suc (Suc (Suc (Suc (Suc (Suc n)))))) h registry thr
             (query (Term ''workspace_has_dependency'' [t, i, r, ty]))
           = ([], Raised (InstantiationError (''workspace'', 1)))"
    unfolding solve_workspace_has_dependency
    by (rule solve_Suc_Err[OF _ step_workspace_rigid[OF assms]]) simp
  have e: "solve (Suc (Suc (Suc (Suc (Suc (Suc (Suc (Suc n)))))))) h registry thr
             (query (Term ''workspace_has_dependency'' [c, i, r, t])) = ([], Exhausted)"
    if "isAtom c \<or> isVariable c"
    unfolding solve_workspace_has_dependency
    by (rule solve_workspace_then_rigid_type[OF assms(1) that assms(2,3)])
  show ?thesis unfolding n1 n3 n6 n8 using a b c d e by (simp del: solve.simps)
qed


text \<open>The five cases on the sample project, with \<open>foo(bar)\<close> as the compound term.\<close>

theorem compound_argument_outcomes_witness:
  "solve 1 sample_host (projects sample_world) \<lparr>session = 0\<rparr>
      (query (Term ''workspace_ident'' [Term ''foo'' [Term ''bar'' []], Var ''I'' 0]))
     = ([], Raised (InstantiationError (''workspace_ident'', 2)))
   \<and> solve 3 sample_host (projects sample_world) \<lparr>session = 0\<rparr>
      (query (Term ''workspace_field'' [Term ''foo'' [Term ''bar'' []], Term ''version'' [], Var ''V'' 0]))
     = ([], Raised (InstantiationError (''workspace_field'', 3)))
   \<and> solve 3 sample_host (projects sample_world) \<lparr>session = 0\<rparr>
      (query (Term ''workspace_field'' [Term ''packages/a'' [], Term ''foo'' [Term ''bar'' []], Var ''V'' 0]))
     = ([], Raised (InstantiationError (''workspace_field'', 3)))
   \<and> solve 6 sample_host (projects sample_world) \<lparr>session = 0\<rparr>
      (query (Term ''workspace_has_dependency''
         [Term ''foo'' [Term ''bar'' []], Var ''I'' 0, Var ''R'' 0, Term ''dependencies'' []]))
     = ([], Raised (InstantiationError (''workspace'', 1)))
   \<and> solve 8 sample_host (projects sample_world) \<lparr>session = 0\<rparr>
      (query (Term ''workspace_has_dependency''
         [Term ''packages/a'' [], Var ''I'' 0, Var ''R'' 0, Term ''foo'' [Term ''bar'' []]]))
     = ([], Exhausted)"
proof -
  have r: "getProject (projects sample_world) \<lparr>session = 0\<rparr> = Inr sample_project"
    by (simp add: getProject_def sample_world_def linkProjectToSession_def)
  have t: "\<not> isAtom (Term ''foo'' [Term ''bar'' []])" "\<not> isVariable (Term ''foo'' [Term ''bar'' []])"
    by (simp_all add: isAtom_def isVariable_def)
  have c: "isAtom (Term ''packages/a'' []) \<or> isVariable (Term ''packages/a'' [])"
    by (simp add: isAtom_def)
  have e: "(0::nat) + 1 = 1" "(0::nat) + 3 = 3" "(0::nat) + 6 = 6" "(0::nat) + 8 = 8" by simp_all
  from compound_argument_outcomes[OF r t, of 0 sample_host "Var ''I'' 0" "Term ''version'' []"
      "Var ''V'' 0" "Term ''packages/a'' []" "Var ''I'' 0" "Var ''R'' 0" "Term ''dependencies'' []",
      unfolded e] c
  show ?thesis by blast
qed

(*CLAIMS*)

end
